theory Spec2Isabelle
  imports Complex_Main
begin

section \<open>Python and numpy primitives used by truss.py\<close>

text \<open>
  The exceptions that can leave \<open>Truss.calculate_force\<close>:
  \<^item> \<open>IndexError\<close>: a numpy row lookup or a list item assignment out of range;
  \<^item> \<open>ValueError\<close>: \<open>max\<close> of an empty list, or a negative row index given to
    \<open>csr_matrix\<close>;
  \<^item> \<open>RuntimeError\<close>: the \<open>raise\<close> of line 111;
  \<^item> \<open>RuntimeWarning\<close>: a numpy division by zero or integer overflow once
    \<open>warnings.filterwarnings('error')\<close> (line 117) is in force.

  The constructor can also end in \<open>OSError\<close> (a file that cannot be opened),
  \<open>StopIteration\<close> (\<open>next(f)\<close> on a file without a line), \<open>ValueError\<close> (a table
  that numpy cannot convert) and \<open>RuntimeWarning\<close> (a beam entry outside int64, under
  the \<open>error\<close> filter). Its \<open>except RuntimeError\<close> clauses catch none of them.
\<close>

datatype error =
  IndexError | ValueError | RuntimeError | RuntimeWarning | OSError | StopIteration

text \<open>
  The entries of the tables are numpy float64 values, modelled over exact arithmetic:
  a real number, or \<open>NonFinite\<close> for the nan or infinity that a division by zero yields.
\<close>

datatype npfloat = Finite real | NonFinite

text \<open>\<open>a[i]\<close> on a numpy array or a Python list: negative indices count from the end.\<close>

definition np_index :: "'a list \<Rightarrow> int \<Rightarrow> error + 'a" where
  "np_index xs i =
     (let n = int (length xs); k = (if i < 0 then n + i else i)
      in if 0 \<le> k \<and> k < n then Inr (xs ! nat k) else Inl IndexError)"

text \<open>\<open>xs[i] = v\<close> on a Python list.\<close>

definition py_setitem :: "'a list \<Rightarrow> int \<Rightarrow> 'a \<Rightarrow> error + 'a list" where
  "py_setitem xs i v =
     (let n = int (length xs); k = (if i < 0 then n + i else i)
      in if 0 \<le> k \<and> k < n then Inr (xs[nat k := v]) else Inl IndexError)"

text \<open>\<open>int(x)\<close> on a float, and \<open>astype(int)\<close>: truncation toward zero.\<close>

definition py_int :: "real \<Rightarrow> int" where
  "py_int r = (if 0 \<le> r then \<lfloor>r\<rfloor> else \<lceil>r\<rceil>)"

text \<open>\<open>max(xs)\<close> on a list of integers: ValueError on the empty list.\<close>

definition py_max :: "int list \<Rightarrow> error + int" where
  "py_max xs = (case xs of [] \<Rightarrow> Inl ValueError | x # ys \<Rightarrow> Inr (fold max ys x))"

text \<open>
  \<open>a / b\<close> on float64 scalars. A zero divisor gives nan or an infinity together with a
  RuntimeWarning; the warning is an exception when the warnings filter is \<open>error\<close>
  (first argument).
\<close>

definition np_div :: "bool \<Rightarrow> real \<Rightarrow> real \<Rightarrow> error + npfloat" where
  "np_div werr a b =
     (if b = 0 then (if werr then Inl RuntimeWarning else Inr NonFinite)
      else Inr (Finite (a / b)))"

text \<open>
  The beams table is an int64 array. \<open>k - 1\<close> on one of its entries overflows at the
  least value: numpy wraps around to the greatest and gives a RuntimeWarning, an
  exception under the \<open>error\<close> filter.
\<close>

definition int64_min :: int where
  "int64_min = - (2 ^ 63)"

definition int64_max :: int where
  "int64_max = 2 ^ 63 - 1"

definition np_pred :: "bool \<Rightarrow> int \<Rightarrow> error + int" where
  "np_pred werr k =
     (if k = int64_min then (if werr then Inl RuntimeWarning else Inr int64_max)
      else Inr (k - 1))"

text \<open>Sequencing: an exception raised by the first computation ends the second.\<close>

definition ebind :: "error + 'a \<Rightarrow> ('a \<Rightarrow> error + 'b) \<Rightarrow> error + 'b" where
  "ebind m f = (case m of Inl e \<Rightarrow> Inl e | Inr x \<Rightarrow> f x)"

fun np_add :: "npfloat \<Rightarrow> npfloat \<Rightarrow> npfloat" where
  "np_add (Finite a) (Finite b) = Finite (a + b)"
| "np_add _ _ = NonFinite"

section \<open>The truss object\<close>

text \<open>
  A row of the joints table: index, x position, y position, external force (x and y)
  and the support flag; all float64. A row of the beams table: index and the two
  joint numbers; integers.
\<close>

record joint =
  jid :: real
  jx :: real
  jy :: real
  jfx :: real
  jfy :: real
  jsup :: real

record beam =
  bid :: int
  bj1 :: int
  bj2 :: int

record truss =
  joints :: "joint list"
  beams :: "beam list"

text \<open>
  The state a method can see or change: the object, and the interpreter's warnings
  filter (\<open>warn_error\<close>: warnings are raised as exceptions).
\<close>

record interp =
  self :: truss
  warn_error :: bool

section \<open>The constructor (lines 16-45)\<close>

text \<open>
  A file, as the constructor sees it: \<open>None\<close> when \<open>open\<close> fails, else its lines, each
  already cut into tokens by \<open>line.strip().split()\<close>. A token is \<open>Num r\<close> when
  \<open>float\<close> reads it as the number \<open>r\<close>, and \<open>Text\<close> when \<open>float\<close> rejects it. (Tokens
  that read as nan or an infinity are outside the model, which is over exact
  arithmetic.)
\<close>

datatype cell = Num real | Text

type_synonym table_file = "cell list list option"

text \<open>
  Lines 28-41, for one file: \<open>next(f)\<close> skips the header line and the other lines are
  collected. No exception raised here is a RuntimeError, so none is caught.
\<close>

fun read_table :: "table_file \<Rightarrow> error + cell list list" where
  "read_table None = Inl OSError"
| "read_table (Some []) = Inl StopIteration"
| "read_table (Some (header # rows)) = Inr rows"

text \<open>
  \<open>np.asarray(rows).astype(float)\<close>: a ValueError when the rows do not all have the
  same length, or when a token is not a number.
\<close>

definition rectangular :: "'a list list \<Rightarrow> bool" where
  "rectangular rows \<longleftrightarrow> list_all (\<lambda>r. length r = length (hd rows)) rows"

fun the_num :: "cell \<Rightarrow> real" where
  "the_num (Num r) = r"
| "the_num Text = 0"

definition asarray_float :: "cell list list \<Rightarrow> error + real list list" where
  "asarray_float rows =
     (if \<not> rectangular rows then Inl ValueError
      else if list_ex (list_ex (\<lambda>c. c = Text)) rows then Inl ValueError
      else Inr (map (map the_num) rows))"

text \<open>
  \<open>.astype(int)\<close> on the float table of the beams: every entry is truncated toward
  zero. An entry outside int64 is stored as the least int64 with a RuntimeWarning, an
  exception under the \<open>error\<close> filter.
\<close>

definition in_int64 :: "real \<Rightarrow> bool" where
  "in_int64 r \<longleftrightarrow> int64_min \<le> py_int r \<and> py_int r \<le> int64_max"

definition astype_int :: "bool \<Rightarrow> real list list \<Rightarrow> error + int list list" where
  "astype_int werr rows =
     (if list_all (list_all in_int64) rows then Inr (map (map py_int) rows)
      else if werr then Inl RuntimeWarning
      else Inr (map (map (\<lambda>r. if in_int64 r then py_int r else int64_min)) rows))"

text \<open>
  The object. The methods read the columns 0 to 5 of a joint row and the columns 1
  and 2 of a beam row: \<open>Truss\<close> keeps those of tables that have them (an empty table
  has no row to read). \<open>Narrow\<close> stands for an object with a table that lacks one
  of these columns; \<open>calculate_force\<close> is not modelled on it.
\<close>

datatype truss_object = Truss truss | Narrow

definition to_joint :: "real list \<Rightarrow> joint" where
  "to_joint r = \<lparr>jid = r ! 0, jx = r ! 1, jy = r ! 2, jfx = r ! 3, jfy = r ! 4, jsup = r ! 5\<rparr>"

definition to_beam :: "int list \<Rightarrow> beam" where
  "to_beam r = \<lparr>bid = r ! 0, bj1 = r ! 1, bj2 = r ! 2\<rparr>"

definition has_columns :: "nat \<Rightarrow> 'a list list \<Rightarrow> bool" where
  "has_columns n rows \<longleftrightarrow> list_all (\<lambda>r. n \<le> length r) rows"

text \<open>
  \<open>Truss.__init__\<close>: both files are read, then the joints are converted (line 43),
  then the beams (line 45). Nothing compares a beam with the joints.
\<close>

definition Truss_init :: "bool \<Rightarrow> table_file \<Rightarrow> table_file \<Rightarrow> error + truss_object" where
  "Truss_init werr jointfile beamfile =
     ebind (read_table jointfile) (\<lambda>jrows.
     ebind (read_table beamfile) (\<lambda>brows.
     ebind (asarray_float jrows) (\<lambda>joints_f.
     ebind (asarray_float brows) (\<lambda>beams_f.
     ebind (astype_int werr beams_f) (\<lambda>beams_i.
     Inr (if has_columns 6 joints_f \<and> has_columns 3 beams_i
          then Truss \<lparr>joints = map to_joint joints_f, beams = map to_beam beams_i\<rparr>
          else Narrow))))))"

section \<open>calculate\_force: the beam loop (lines 57-86)\<close>

type_synonym triplets = "int list \<times> int list \<times> npfloat list"

text \<open>One iteration, for the beam \<open>bm\<close> at position \<open>b\<close>.\<close>

definition beam_step ::
  "bool \<Rightarrow> joint list \<Rightarrow> beam \<Rightarrow> nat \<Rightarrow> triplets \<Rightarrow> error + triplets" where
  "beam_step werr js bm b acc =
     (case acc of (row, col, data) \<Rightarrow>
      ebind (np_pred werr (bj1 bm)) (\<lambda>i1.
      ebind (np_index js i1) (\<lambda>j1.
      ebind (np_pred werr (bj2 bm)) (\<lambda>i2.
      ebind (np_index js i2) (\<lambda>j2.
      let j1num = py_int (jid j1);
          j2num = py_int (jid j2);
          j1x = jx j1 - jx j2;
          j1y = jy j1 - jy j2
      in
      ebind (np_div werr j1x (sqrt (j1x\<^sup>2 + j1y\<^sup>2))) (\<lambda>bj1x.
      ebind (np_div werr j1y (sqrt (j1x\<^sup>2 + j1y\<^sup>2))) (\<lambda>bj1y.
      let j2x = jx j2 - jx j1;
          j2y = jy j2 - jy j1
      in
      ebind (np_div werr j2x (sqrt (j2x\<^sup>2 + j2y\<^sup>2))) (\<lambda>bj2x.
      ebind (np_div werr j2y (sqrt (j2x\<^sup>2 + j2y\<^sup>2))) (\<lambda>bj2y.
      Inr (row @ [j1num * 2 - 2, j1num * 2 - 1, j2num * 2 - 2, j2num * 2 - 1],
           col @ [int b, int b, int b, int b],
           data @ [bj1x, bj1y, bj2x, bj2y]))))))))))"

fun beam_loop ::
  "bool \<Rightarrow> joint list \<Rightarrow> beam list \<Rightarrow> nat \<Rightarrow> triplets \<Rightarrow> error + triplets" where
  "beam_loop werr js [] b acc = Inr acc"
| "beam_loop werr js (bm # bms) b acc =
     ebind (beam_step werr js bm b acc) (beam_loop werr js bms (Suc b))"

section \<open>calculate\_force: the joint loop (lines 88-107)\<close>

type_synonym assembly = "int list \<times> int list \<times> npfloat list \<times> real list"

text \<open>One iteration, for the joint row \<open>j\<close>.\<close>

definition joint_step :: "joint \<Rightarrow> assembly \<Rightarrow> error + assembly" where
  "joint_step j acc =
     (case acc of (row, col, data, sol) \<Rightarrow>
      let jnum = py_int (jid j) in
      ebind (if jfx j \<noteq> 0 then py_setitem sol (jnum * 2 - 2) (- jfx j) else Inr sol) (\<lambda>sol1.
      ebind (if jfy j \<noteq> 0 then py_setitem sol1 (jnum * 2 - 1) (- jfy j) else Inr sol1) (\<lambda>sol2.
      if jsup j = 1 then
        ebind (py_max col) (\<lambda>m1.
        let col1 = col @ [m1 + 1] in
        ebind (py_max col1) (\<lambda>m2.
        Inr (row @ [jnum * 2 - 2, jnum * 2 - 1],
             col1 @ [m2 + 1],
             data @ [Finite 1, Finite 1],
             sol2)))
      else Inr (row, col, data, sol2))))"

fun joint_loop :: "joint list \<Rightarrow> assembly \<Rightarrow> error + assembly" where
  "joint_loop [] acc = Inr acc"
| "joint_loop (j # js) acc = ebind (joint_step j acc) (joint_loop js)"

text \<open>
  Lines 53-107 together: the coordinate lists \<open>row\<close>, \<open>col\<close>, \<open>data\<close> of the sparse
  matrix and the right-hand side \<open>sol\<close>, all built from empty lists on every call.
\<close>

definition assemble :: "bool \<Rightarrow> truss \<Rightarrow> error + assembly" where
  "assemble werr t =
     ebind (beam_loop werr (joints t) (beams t) 0 ([], [], [])) (\<lambda>(row, col, data).
     joint_loop (joints t) (row, col, data, replicate (length (joints t) * 2) 0))"

section \<open>calculate\_force: the check and the solve (lines 108-123)\<close>

text \<open>
  \<open>scipy.sparse.csr_matrix((data, (row, col)), shape=(R, C))\<close>, as the dense table of
  its entries: entries given several times are summed. A negative index is a
  ValueError (\<open>col\<close> never holds one; \<open>row\<close> does when a joint index is below 1).
\<close>

definition np_sum :: "npfloat list \<Rightarrow> npfloat" where
  "np_sum xs = foldr np_add xs (Finite 0)"

definition entry :: "npfloat list \<Rightarrow> int list \<Rightarrow> int list \<Rightarrow> nat \<Rightarrow> nat \<Rightarrow> npfloat" where
  "entry data row col i k =
     np_sum (map fst (filter (\<lambda>(d, r, c). r = int i \<and> c = int k) (zip data (zip row col))))"

definition csr_matrix ::
  "npfloat list \<Rightarrow> int list \<Rightarrow> int list \<Rightarrow> int \<Rightarrow> int \<Rightarrow> error + npfloat list list" where
  "csr_matrix data row col R C =
     (if list_ex (\<lambda>r. r < 0) row \<or> list_ex (\<lambda>c. c < 0) col then Inl ValueError
      else Inr (map (\<lambda>i. map (\<lambda>k. entry data row col i k) [0..<nat C]) [0..<nat R]))"

text \<open>
  \<open>scipy.sparse.linalg.spsolve\<close> is a library routine, not code of the repository: it
  is a parameter of the model. \<open>None\<close> stands for any exception it raises inside the
  \<open>try\<close> of line 118, warnings included (the filter is \<open>error\<close> by then).
\<close>

type_synonym solver = "npfloat list list \<Rightarrow> real list \<Rightarrow> npfloat list option"

text \<open>
  Lines 108-114 up to the construction of the matrix: the system handed to the solver,
  or the exception raised before.
\<close>

definition equilibrium_system :: "bool \<Rightarrow> truss \<Rightarrow> error + (npfloat list list \<times> real list)" where
  "equilibrium_system werr t =
     ebind (assemble werr t) (\<lambda>(row, col, data, sol).
     ebind (py_max row) (\<lambda>mr.
     ebind (py_max col) (\<lambda>mc.
     if mr > mc \<or> mr < mc then Inl RuntimeError
     else
       ebind (csr_matrix data row col (mr + 1) (mc + 1)) (\<lambda>matrix.
       Inr (matrix, sol)))))"

text \<open>
  The whole method. An exception leaves the interpreter state as it was; once the
  matrix is built the warnings filter is set to \<open>error\<close> (line 117) and stays so. A
  failing solver is caught (line 121): the message is printed and the empty list
  \<open>beamforce\<close> of line 108 is returned.
\<close>

definition calculate_force :: "solver \<Rightarrow> interp \<Rightarrow> (error + npfloat list) \<times> interp" where
  "calculate_force solve w =
     (case equilibrium_system (warn_error w) (self w) of
        Inl e \<Rightarrow> (Inl e, w)
      | Inr (matrix, sol) \<Rightarrow>
          (case solve matrix sol of
             None \<Rightarrow> (Inr [], w\<lparr>warn_error := True\<rparr>)
           | Some force \<Rightarrow>
               (Inr (take (length (beams (self w))) force), w\<lparr>warn_error := True\<rparr>)))"

section \<open>Solving over exact arithmetic\<close>

text \<open>The product of a dense matrix (a list of rows) and a vector.\<close>

definition dot :: "real list \<Rightarrow> real list \<Rightarrow> real" where
  "dot xs ys = sum_list (map2 (*) xs ys)"

definition mat_vec :: "real list list \<Rightarrow> real list \<Rightarrow> real list" where
  "mat_vec A x = map (\<lambda>r. dot r x) A"

text \<open>
  A solver is sound when, on a matrix of finite entries, every vector it returns is
  finite, as long as the right-hand side, and solves the system.
\<close>

definition solver_sound :: "solver \<Rightarrow> bool" where
  "solver_sound solve \<longleftrightarrow>
     (\<forall>A b f. solve (map (map Finite) A) b = Some f \<longrightarrow>
        (\<exists>x. f = map Finite x \<and> length x = length b \<and> mat_vec A x = b))"

text \<open>
  A reference solver, used where a concrete solver is needed: Gaussian elimination on
  the equations \<open>(coefficients, right-hand side)\<close>, one unknown at a time. It fails
  as \<open>spsolve\<close> does under the \<open>error\<close> filter: on a matrix that is not square or
  does not fit the right-hand side (ValueError) and on a singular matrix
  (MatrixRankWarning); it also fails on a non-finite entry.
\<close>

type_synonym equation = "real list \<times> real"

definition eliminate :: "equation \<Rightarrow> equation \<Rightarrow> equation" where
  "eliminate p e =
     (let m = hd (fst e) / hd (fst p)
      in (map2 (\<lambda>a c. a - m * c) (tl (fst e)) (tl (fst p)), snd e - m * snd p))"

fun split_pivot :: "equation list \<Rightarrow> (equation \<times> equation list) option" where
  "split_pivot [] = None"
| "split_pivot (e # es) =
     (if hd (fst e) \<noteq> 0 then Some (e, es)
      else map_option (\<lambda>(p, rest). (p, e # rest)) (split_pivot es))"

fun solve_eqs :: "nat \<Rightarrow> equation list \<Rightarrow> real list option" where
  "solve_eqs 0 eqs = (if eqs = [] then Some [] else None)"
| "solve_eqs (Suc n) eqs =
     (case split_pivot eqs of
        None \<Rightarrow> None
      | Some (p, rest) \<Rightarrow>
          map_option (\<lambda>xs. (snd p - dot (tl (fst p)) xs) / hd (fst p) # xs)
            (solve_eqs n (map (eliminate p) rest)))"

fun the_real :: "npfloat \<Rightarrow> real" where
  "the_real (Finite r) = r"
| "the_real NonFinite = 0"

definition exact_spsolve :: solver where
  "exact_spsolve A b =
     (let n = length A in
      if length b = n \<and> list_all (\<lambda>r. length r = n) A
         \<and> list_all (list_all (\<lambda>x. x \<noteq> NonFinite)) A
      then map_option (map Finite) (solve_eqs n (zip (map (map the_real) A) b))
      else None)"

section \<open>Reading the assembled lists\<close>

text \<open>
  The definitions of this section are not code of the program: they name what the
  loops compute, so that the properties can be stated.

  \<open>row_index k\<close>: the index \<open>k - 1\<close> that lines 59-60 compute for the joint number
  \<open>k\<close>, wrapped around at the least int64. \<open>selects js k\<close>: the lookup
  \<open>self.joints[k - 1]\<close> is in range (numpy accepts \<open>-N \<le> k - 1 < N\<close>);
  \<open>endpoint js k\<close> is the row it returns.
\<close>

definition row_index :: "int \<Rightarrow> int" where
  "row_index k = (if k = int64_min then int64_max else k - 1)"

definition selects :: "joint list \<Rightarrow> int \<Rightarrow> bool" where
  "selects js k \<longleftrightarrow> - int (length js) \<le> row_index k \<and> row_index k < int (length js)"

definition endpoint :: "joint list \<Rightarrow> int \<Rightarrow> joint" where
  "endpoint js k =
     js ! nat (if row_index k < 0 then int (length js) + row_index k else row_index k)"

text \<open>A beam one of whose joint numbers is the least int64.\<close>

definition overflows :: "beam \<Rightarrow> bool" where
  "overflows bm \<longleftrightarrow> bj1 bm = int64_min \<or> bj2 bm = int64_min"

text \<open>A beam whose two joints have the same coordinates.\<close>

definition zero_length :: "joint list \<Rightarrow> beam \<Rightarrow> bool" where
  "zero_length js bm \<longleftrightarrow>
     jx (endpoint js (bj1 bm)) = jx (endpoint js (bj2 bm)) \<and>
     jy (endpoint js (bj1 bm)) = jy (endpoint js (bj2 bm))"

text \<open>
  The four row indices and the four coefficients one beam adds: the x and y rows of
  its first joint with the unit vector \<open>(dx, dy) / sqrt (dx\<^sup>2 + dy\<^sup>2)\<close>, where
  \<open>dx = x(j1) - x(j2)\<close> and \<open>dy = y(j1) - y(j2)\<close>, then the x and y rows of its
  second joint with the opposite vector.
\<close>

definition beam_rows :: "joint list \<Rightarrow> beam \<Rightarrow> int list" where
  "beam_rows js bm =
     (let j1num = py_int (jid (endpoint js (bj1 bm)));
          j2num = py_int (jid (endpoint js (bj2 bm)))
      in [j1num * 2 - 2, j1num * 2 - 1, j2num * 2 - 2, j2num * 2 - 1])"

definition beam_data :: "joint list \<Rightarrow> beam \<Rightarrow> npfloat list" where
  "beam_data js bm =
     (let dx = jx (endpoint js (bj1 bm)) - jx (endpoint js (bj2 bm));
          dy = jy (endpoint js (bj1 bm)) - jy (endpoint js (bj2 bm))
      in if zero_length js bm then replicate 4 NonFinite
         else [Finite (dx / sqrt (dx\<^sup>2 + dy\<^sup>2)), Finite (dy / sqrt (dx\<^sup>2 + dy\<^sup>2)),
               Finite (- dx / sqrt (dx\<^sup>2 + dy\<^sup>2)), Finite (- dy / sqrt (dx\<^sup>2 + dy\<^sup>2))])"

text \<open>
  The beams the loop of lines 57-86 gets through: both lookups in range, and no
  integer overflow or division by zero while warnings are exceptions.
\<close>

definition beam_ok :: "bool \<Rightarrow> joint list \<Rightarrow> beam \<Rightarrow> bool" where
  "beam_ok werr js bm \<longleftrightarrow>
     selects js (bj1 bm) \<and> selects js (bj2 bm) \<and>
     \<not> (werr \<and> (overflows bm \<or> zero_length js bm))"

text \<open>The test of line 100, and the two rows a supported joint adds.\<close>

definition supported :: "joint \<Rightarrow> bool" where
  "supported j \<longleftrightarrow> jsup j = 1"

definition reaction_rows :: "joint \<Rightarrow> int list" where
  "reaction_rows j = [py_int (jid j) * 2 - 2, py_int (jid j) * 2 - 1]"

text \<open>\<open>max(col) + 1\<close> where \<open>col\<close> is not empty.\<close>

definition next_col :: "int list \<Rightarrow> int" where
  "next_col col = (case py_max col of Inl e \<Rightarrow> 0 | Inr m \<Rightarrow> m + 1)"

text \<open>
  The joint numbers that give the matrix a row: the two ends of every beam and every
  supported joint.
\<close>

definition joint_numbers :: "joint list \<Rightarrow> beam list \<Rightarrow> int list" where
  "joint_numbers js bms =
     concat (map (\<lambda>bm. [py_int (jid (endpoint js (bj1 bm))), py_int (jid (endpoint js (bj2 bm)))]) bms)
     @ map (\<lambda>j. py_int (jid j)) (filter supported js)"

text \<open>
  The shape \<open>(max(row) + 1, max(col) + 1)\<close> that lines 110 and 114 compute from the
  assembled lists: the row count and the column count of the system.
\<close>

definition system_shape :: "bool \<Rightarrow> truss \<Rightarrow> error + (int \<times> int)" where
  "system_shape werr t =
     ebind (assemble werr t) (\<lambda>(row, col, data, sol).
     ebind (py_max row) (\<lambda>mr.
     ebind (py_max col) (\<lambda>mc.
     Inr (mr + 1, mc + 1))))"

text \<open>
  For the constructor: a file that can be opened and has a header line, the rows after
  the header, a table numpy converts to floats, and a table whose entries all fit
  int64.
\<close>

fun readable :: "table_file \<Rightarrow> bool" where
  "readable (Some (header # rows)) = True"
| "readable f = False"

fun table_rows :: "table_file \<Rightarrow> cell list list" where
  "table_rows (Some (header # rows)) = rows"
| "table_rows f = []"

definition numeric :: "cell list list \<Rightarrow> bool" where
  "numeric rows \<longleftrightarrow> rectangular rows \<and> list_all (list_all (\<lambda>c. c \<noteq> Text)) rows"

definition fits_int64 :: "cell list list \<Rightarrow> bool" where
  "fits_int64 rows \<longleftrightarrow> list_all (list_all (\<lambda>c. in_int64 (the_num c))) rows"

section \<open>Example trusses\<close>

definition mk_joint :: "real \<Rightarrow> real \<Rightarrow> real \<Rightarrow> real \<Rightarrow> real \<Rightarrow> real \<Rightarrow> joint" where
  "mk_joint i x y fx fy s = \<lparr>jid = i, jx = x, jy = y, jfx = fx, jfy = fy, jsup = s\<rparr>"

definition mk_beam :: "int \<Rightarrow> int \<Rightarrow> int \<Rightarrow> beam" where
  "mk_beam i a b = \<lparr>bid = i, bj1 = a, bj2 = b\<rparr>"

text \<open>
  One horizontal beam between two joints; joint 1 is supported and joint 2 carries the
  load \<open>(-10, 0)\<close>.
\<close>

definition single_beam :: truss where
  "single_beam =
     \<lparr>joints = [mk_joint 1 0 0 0 0 1, mk_joint 2 1 0 (-10) 0 0],
      beams = [mk_beam 1 1 2]\<rparr>"

text \<open>
  Two supported joints, each tied by one beam to a third joint that carries the load
  \<open>(0, -100)\<close>: six equations, two beam forces and four reactions.
\<close>

definition bracket :: truss where
  "bracket =
     \<lparr>joints = [mk_joint 1 1 0 0 0 1, mk_joint 2 0 1 0 0 1, mk_joint 3 1 1 0 (-100) 0],
      beams = [mk_beam 1 1 3, mk_beam 2 2 3]\<rparr>"

text \<open>Two beams between the same two joints: a square system that is singular.\<close>

definition double_beam :: truss where
  "double_beam =
     \<lparr>joints = [mk_joint 1 0 0 0 0 1, mk_joint 2 1 0 (-10) 0 0],
      beams = [mk_beam 1 1 2, mk_beam 2 1 2]\<rparr>"

text \<open>The same with a third joint that has no beam and no support.\<close>

definition loose_joint :: truss where
  "loose_joint =
     \<lparr>joints = [mk_joint 1 0 0 0 0 1, mk_joint 2 1 0 (-10) 0 0, mk_joint 3 5 5 0 0 0],
      beams = [mk_beam 1 1 2, mk_beam 2 1 2]\<rparr>"

text \<open>Two supported joints and no beam.\<close>

definition no_beams :: truss where
  "no_beams = \<lparr>joints = [mk_joint 1 0 0 0 0 1, mk_joint 2 1 0 0 (-5) 1], beams = []\<rparr>"

text \<open>
  A beam between two joints at the same place: the two files, and the object the
  constructor makes of them.
\<close>

definition coincident_joints_file :: table_file where
  "coincident_joints_file =
     Some [[Text, Text, Text, Text, Text, Text],
           [Num 1, Num 0, Num 0, Num 0, Num 0, Num 1],
           [Num 2, Num 0, Num 0, Num (- 10), Num 0, Num 0]]"

definition coincident_beams_file :: table_file where
  "coincident_beams_file = Some [[Text, Text, Text], [Num 1, Num 1, Num 2]]"

definition coincident :: truss where
  "coincident =
     \<lparr>joints = [mk_joint 1 0 0 0 0 1, mk_joint 2 0 0 (- 10) 0 0], beams = [mk_beam 1 1 2]\<rparr>"

text \<open>A beam that names joint 5 of the same table of two joints.\<close>

definition dangling_beams_file :: table_file where
  "dangling_beams_file = Some [[Text, Text, Text], [Num 1, Num 1, Num 5]]"

definition dangling :: truss where
  "dangling =
     \<lparr>joints = [mk_joint 1 0 0 0 0 1, mk_joint 2 0 0 (- 10) 0 0], beams = [mk_beam 1 1 5]\<rparr>"

text \<open>Two beams between two joints at the same place: a square system.\<close>

definition coincident_pair :: truss where
  "coincident_pair =
     \<lparr>joints = [mk_joint 1 0 0 0 0 1, mk_joint 2 0 0 (- 10) 0 0],
      beams = [mk_beam 1 1 2, mk_beam 2 1 2]\<rparr>"

text \<open>One loaded joint with the number 5, and no beam.\<close>

definition stray_number :: truss where
  "stray_number = \<lparr>joints = [mk_joint 5 0 0 1 0 0], beams = []\<rparr>"

section \<open>Auxiliary facts\<close>

lemma ebind_Inl [simp]: "ebind (Inl e) f = Inl e"
  by (simp add: ebind_def)

lemma ebind_Inr [simp]: "ebind (Inr x) f = f x"
  by (simp add: ebind_def)

lemma ebind_eq_Inr: "ebind m f = Inr y \<longleftrightarrow> (\<exists>x. m = Inr x \<and> f x = Inr y)"
  by (cases m) simp_all

lemma ebind_eq_Inl: "ebind m f = Inl e \<longleftrightarrow> m = Inl e \<or> (\<exists>x. m = Inr x \<and> f x = Inl e)"
  by (cases m) simp_all

lemma lookup_joint:
  "ebind (np_pred werr k) (\<lambda>i. ebind (np_index js i) f) =
     (if werr \<and> k = int64_min then Inl RuntimeWarning
      else if selects js k then f (endpoint js k)
      else Inl IndexError)"
  by (auto simp: np_pred_def np_index_def selects_def endpoint_def row_index_def Let_def)

lemma sqrt_sum_squares_zero: "sqrt (a\<^sup>2 + b\<^sup>2) = 0 \<longleftrightarrow> a = 0 \<and> b = (0::real)"
  by (simp add: sum_power2_eq_zero_iff)

lemma replicate_4: "replicate 4 x = [x, x, x, x]"
  by (simp add: numeral_eq_Suc)

lemma beam_divs:
  fixes x1 x2 y1 y2 :: real
  assumes "\<not> (x1 = x2 \<and> y1 = y2)"
  shows "np_div werr (x1 - x2) (sqrt ((x1 - x2)\<^sup>2 + (y1 - y2)\<^sup>2)) =
           Inr (Finite ((x1 - x2) / sqrt ((x1 - x2)\<^sup>2 + (y1 - y2)\<^sup>2)))"
    and "np_div werr (y1 - y2) (sqrt ((x1 - x2)\<^sup>2 + (y1 - y2)\<^sup>2)) =
           Inr (Finite ((y1 - y2) / sqrt ((x1 - x2)\<^sup>2 + (y1 - y2)\<^sup>2)))"
    and "np_div werr (x2 - x1) (sqrt ((x2 - x1)\<^sup>2 + (y2 - y1)\<^sup>2)) =
           Inr (Finite (- (x1 - x2) / sqrt ((x1 - x2)\<^sup>2 + (y1 - y2)\<^sup>2)))"
    and "np_div werr (y2 - y1) (sqrt ((x2 - x1)\<^sup>2 + (y2 - y1)\<^sup>2)) =
           Inr (Finite (- (y1 - y2) / sqrt ((x1 - x2)\<^sup>2 + (y1 - y2)\<^sup>2)))"
proof -
  have nz: "sqrt ((x1 - x2)\<^sup>2 + (y1 - y2)\<^sup>2) \<noteq> 0"
    using assms by (simp add: sqrt_sum_squares_zero)
  have sym: "sqrt ((x2 - x1)\<^sup>2 + (y2 - y1)\<^sup>2) = sqrt ((x1 - x2)\<^sup>2 + (y1 - y2)\<^sup>2)"
    by (simp add: power2_commute [of x2 x1] power2_commute [of y2 y1])
  show "np_div werr (x1 - x2) (sqrt ((x1 - x2)\<^sup>2 + (y1 - y2)\<^sup>2)) =
           Inr (Finite ((x1 - x2) / sqrt ((x1 - x2)\<^sup>2 + (y1 - y2)\<^sup>2)))"
    using nz by (simp add: np_div_def)
  show "np_div werr (y1 - y2) (sqrt ((x1 - x2)\<^sup>2 + (y1 - y2)\<^sup>2)) =
           Inr (Finite ((y1 - y2) / sqrt ((x1 - x2)\<^sup>2 + (y1 - y2)\<^sup>2)))"
    using nz by (simp add: np_div_def)
  show "np_div werr (x2 - x1) (sqrt ((x2 - x1)\<^sup>2 + (y2 - y1)\<^sup>2)) =
           Inr (Finite (- (x1 - x2) / sqrt ((x1 - x2)\<^sup>2 + (y1 - y2)\<^sup>2)))"
    unfolding sym using nz by (simp add: np_div_def)
  show "np_div werr (y2 - y1) (sqrt ((x2 - x1)\<^sup>2 + (y2 - y1)\<^sup>2)) =
           Inr (Finite (- (y1 - y2) / sqrt ((x1 - x2)\<^sup>2 + (y1 - y2)\<^sup>2)))"
    unfolding sym using nz by (simp add: np_div_def)
qed

lemma beam_step_eq:
  "beam_step werr js bm b (row, col, data) =
     (if werr \<and> bj1 bm = int64_min then Inl RuntimeWarning
      else if \<not> selects js (bj1 bm) then Inl IndexError
      else if werr \<and> bj2 bm = int64_min then Inl RuntimeWarning
      else if \<not> selects js (bj2 bm) then Inl IndexError
      else if werr \<and> zero_length js bm then Inl RuntimeWarning
      else Inr (row @ beam_rows js bm, col @ replicate 4 (int b), data @ beam_data js bm))"
proof (cases "zero_length js bm")
  case z: True
  then show ?thesis
    unfolding beam_step_def prod.case lookup_joint
    by (simp add: Let_def np_div_def zero_length_def beam_rows_def beam_data_def replicate_4)
next
  case z: False
  then have ne: "\<not> (jx (endpoint js (bj1 bm)) = jx (endpoint js (bj2 bm)) \<and>
               jy (endpoint js (bj1 bm)) = jy (endpoint js (bj2 bm)))"
    by (simp add: zero_length_def)
  from z show ?thesis
    unfolding beam_step_def prod.case lookup_joint Let_def beam_rows_def beam_data_def
    by (simp add: beam_divs [OF ne] replicate_4)
qed

lemma beam_step_ok:
  "beam_ok werr js bm \<Longrightarrow>
     beam_step werr js bm b (row, col, data) =
       Inr (row @ beam_rows js bm, col @ replicate 4 (int b), data @ beam_data js bm)"
  by (auto simp: beam_step_eq beam_ok_def overflows_def)

lemma beam_step_not_ok:
  "\<not> beam_ok werr js bm \<Longrightarrow> \<exists>e. beam_step werr js bm b (row, col, data) = Inl e"
  by (auto simp: beam_step_eq beam_ok_def overflows_def)

lemma upt_shift: "[b..<Suc (b + n)] = b # [Suc b..<Suc (b + n)]"
  by (rule upt_conv_Cons) simp

lemma beam_cols_Suc:
  "concat (map (\<lambda>k. replicate 4 (int k)) [b..<b + Suc n]) =
     replicate 4 (int b) @ concat (map (\<lambda>k. replicate 4 (int k)) [Suc b..<Suc b + n])"
proof -
  have "[b..<b + Suc n] = b # [Suc b..<Suc b + n]"
    using upt_shift [of b n] by (simp del: upt_Suc)
  then show ?thesis
    by (simp only: list.map concat.simps)
qed

lemma beam_loop_Inr:
  "beam_loop werr js bms b (row, col, data) = Inr r \<longleftrightarrow>
     list_all (beam_ok werr js) bms \<and>
     r = (row @ concat (map (beam_rows js) bms),
          col @ concat (map (\<lambda>k. replicate 4 (int k)) [b..<b + length bms]),
          data @ concat (map (beam_data js) bms))"
proof (induction bms arbitrary: b row col data)
  case Nil
  show ?case by auto
next
  case (Cons bm bms)
  show ?case
  proof (cases "beam_ok werr js bm")
    case False
    from beam_step_not_ok [OF this] obtain e where
      "beam_step werr js bm b (row, col, data) = Inl e" by blast
    with False show ?thesis by simp
  next
    case True
    then have "beam_step werr js bm b (row, col, data) =
        Inr (row @ beam_rows js bm, col @ replicate 4 (int b), data @ beam_data js bm)"
      by (rule beam_step_ok)
    then have step: "beam_loop werr js (bm # bms) b (row, col, data) =
        beam_loop werr js bms (Suc b)
          (row @ beam_rows js bm, col @ replicate 4 (int b), data @ beam_data js bm)"
      by simp
    have len: "length (bm # bms) = Suc (length bms)"
      by simp
    show ?thesis
      unfolding step Cons.IH len beam_cols_Suc
      using True by (simp only: list.map concat.simps list.pred_inject append_assoc simp_thms)
  qed
qed

lemma beam_loop_Inl:
  "beam_loop werr js bms b acc = Inl e \<Longrightarrow> e = IndexError \<or> (werr \<and> e = RuntimeWarning)"
proof (induction bms arbitrary: b acc)
  case Nil
  then show ?case by simp
next
  case (Cons bm bms)
  obtain row col data where acc: "acc = (row, col, data)" by (cases acc) auto
  show ?case
  proof (cases "beam_step werr js bm b acc")
    case (Inl e')
    with Cons.prems have "e = e'" by simp
    with Inl show ?thesis
      by (auto simp: acc beam_step_eq split: if_splits)
  next
    case (Inr acc')
    with Cons.prems have "beam_loop werr js bms (Suc b) acc' = Inl e" by simp
    then show ?thesis by (rule Cons.IH)
  qed
qed

lemma py_max_Cons: "py_max (x # xs) = Inr (Max (set (x # xs)))"
  unfolding Max.set_eq_fold by (simp add: py_max_def)

lemma py_max_Max: "xs \<noteq> [] \<Longrightarrow> py_max xs = Inr (Max (set xs))"
  by (cases xs) (simp_all only: py_max_Cons list.distinct not_False_eq_True simp_thms)

lemma py_max_Nil [simp]: "py_max [] = Inl ValueError"
  by (simp add: py_max_def)

lemma py_max_eq_Inr: "py_max xs = Inr m \<longleftrightarrow> xs \<noteq> [] \<and> m = Max (set xs)"
proof (cases xs)
  case Nil
  then show ?thesis by simp
next
  case (Cons a list)
  then show ?thesis unfolding Cons py_max_Cons by auto
qed

lemma py_max_snoc: "py_max xs = Inr m \<Longrightarrow> py_max (xs @ [m + 1]) = Inr (m + 1)"
  by (cases xs) (auto simp: py_max_def)

lemma py_setitem_length: "py_setitem xs i v = Inr ys \<Longrightarrow> length ys = length xs"
  by (auto simp: py_setitem_def Let_def split: if_splits)

lemma py_setitem_Inl: "py_setitem xs i v = Inl e \<Longrightarrow> e = IndexError"
  by (auto simp: py_setitem_def Let_def split: if_splits)

lemma next_col_snoc2: "col \<noteq> [] \<Longrightarrow> next_col (col @ [next_col col, next_col col + 1]) = next_col col + 2"
proof -
  assume "col \<noteq> []"
  then obtain m where m: "py_max col = Inr m"
    by (auto simp: py_max_eq_Inr)
  have "py_max (col @ [m + 1]) = Inr (m + 1)"
    by (rule py_max_snoc [OF m])
  then have "py_max ((col @ [m + 1]) @ [m + 1 + 1]) = Inr (m + 1 + 1)"
    by (rule py_max_snoc)
  with m show ?thesis
    by (simp add: next_col_def)
qed

lemma joint_step_Inr:
  assumes "joint_step j (row, col, data, sol) = Inr (row', col', data', sol')"
  shows "length sol' = length sol"
    and "supported j \<Longrightarrow> col \<noteq> [] \<and> row' = row @ reaction_rows j \<and>
           col' = col @ [next_col col, next_col col + 1] \<and> data' = data @ [Finite 1, Finite 1]"
    and "\<not> supported j \<Longrightarrow> row' = row \<and> col' = col \<and> data' = data"
proof -
  from assms [unfolded joint_step_def Let_def] obtain sol1 sol2 where
    s1: "(if jfx j \<noteq> 0 then py_setitem sol (py_int (jid j) * 2 - 2) (- jfx j) else Inr sol) = Inr sol1"
    and s2: "(if jfy j \<noteq> 0 then py_setitem sol1 (py_int (jid j) * 2 - 1) (- jfy j) else Inr sol1) = Inr sol2"
    and rest: "(if jsup j = 1 then
        ebind (py_max col) (\<lambda>m1.
        ebind (py_max (col @ [m1 + 1])) (\<lambda>m2.
        Inr (row @ [py_int (jid j) * 2 - 2, py_int (jid j) * 2 - 1],
             (col @ [m1 + 1]) @ [m2 + 1],
             data @ [Finite 1, Finite 1],
             sol2)))
      else Inr (row, col, data, sol2)) = Inr (row', col', data', sol')"
    by (auto simp: ebind_eq_Inr)
  have l1: "length sol1 = length sol"
    using s1 by (auto split: if_splits dest: py_setitem_length)
  have l2: "length sol2 = length sol1"
    using s2 by (auto split: if_splits dest: py_setitem_length)
  have "sol' = sol2"
    using rest by (auto simp: ebind_eq_Inr split: if_splits)
  with l1 l2 show "length sol' = length sol" by simp
  show "row' = row \<and> col' = col \<and> data' = data" if "\<not> supported j"
    using rest that by (simp add: supported_def)
  show "col \<noteq> [] \<and> row' = row @ reaction_rows j \<and>
           col' = col @ [next_col col, next_col col + 1] \<and> data' = data @ [Finite 1, Finite 1]"
    if "supported j"
  proof -
    from rest that obtain m1 m2 where m1: "py_max col = Inr m1"
      and m2: "py_max (col @ [m1 + 1]) = Inr m2"
      and r: "row' = row @ [py_int (jid j) * 2 - 2, py_int (jid j) * 2 - 1]"
         "col' = (col @ [m1 + 1]) @ [m2 + 1]" "data' = data @ [Finite 1, Finite 1]"
      by (auto simp: supported_def ebind_eq_Inr)
    from m1 have ne: "col \<noteq> []" by (auto simp: py_max_eq_Inr)
    from py_max_snoc [OF m1] m2 have "m2 = m1 + 1" by simp
    with m1 r ne show ?thesis
      by (simp add: reaction_rows_def next_col_def)
  qed
qed

lemma py_max_eq_Inl: "py_max xs = Inl e \<longleftrightarrow> xs = [] \<and> e = ValueError"
  by (cases xs) (auto simp: py_max_def)

lemma joint_step_Inl: "joint_step j (row, col, data, sol) = Inl e \<Longrightarrow>
    e = IndexError \<or> (e = ValueError \<and> supported j \<and> col = [])"
  unfolding joint_step_def Let_def
  by (auto simp: ebind_eq_Inl ebind_eq_Inr supported_def py_max_eq_Inl
      dest: py_setitem_Inl split: if_splits)

lemma upt_double_Suc: "[0..<2 * Suc n] = 0 # Suc 0 # map (\<lambda>i. Suc (Suc i)) [0..<2 * n]"
proof -
  have "map Suc (map Suc [0..<2 * n]) = [Suc (Suc 0)..<Suc (Suc (2 * n))]"
    by (simp only: map_Suc_upt)
  then have "[Suc (Suc 0)..<Suc (Suc (2 * n))] = map (\<lambda>i. Suc (Suc i)) [0..<2 * n]"
    by (simp add: comp_def del: upt_Suc)
  moreover have "[0..<Suc (Suc (2 * n))] = 0 # Suc 0 # [Suc (Suc 0)..<Suc (Suc (2 * n))]"
    by (simp add: upt_conv_Cons del: upt_Suc)
  ultimately show ?thesis
    by (simp del: upt_Suc)
qed

lemma reaction_cols_Suc:
  "map (\<lambda>i. c + int i) [0..<2 * Suc n] = c # (c + 1) # map (\<lambda>i. (c + 2) + int i) [0..<2 * n]"
  unfolding upt_double_Suc by (simp add: comp_def del: upt_Suc)

lemma joint_loop_Inr:
  "joint_loop js (row, col, data, sol) = Inr (row', col', data', sol') \<Longrightarrow>
     row' = row @ concat (map reaction_rows (filter supported js)) \<and>
     col' = col @ map (\<lambda>i. next_col col + int i) [0..<2 * length (filter supported js)] \<and>
     data' = data @ replicate (2 * length (filter supported js)) (Finite 1) \<and>
     length sol' = length sol \<and>
     (filter supported js \<noteq> [] \<longrightarrow> col \<noteq> [])"
proof (induction js arbitrary: row col data sol)
  case Nil
  then show ?case by simp
next
  case (Cons j js)
  from Cons.prems obtain row1 col1 data1 sol1 where
    step: "joint_step j (row, col, data, sol) = Inr (row1, col1, data1, sol1)"
    and loop: "joint_loop js (row1, col1, data1, sol1) = Inr (row', col', data', sol')"
    by (auto simp: ebind_eq_Inr)
  note IH = Cons.IH [OF loop]
  note st = joint_step_Inr [OF step]
  show ?case
  proof (cases "supported j")
    case False
    with IH st show ?thesis by simp
  next
    case True
    from st(2) [OF True] have ne: "col \<noteq> []" and r1: "row1 = row @ reaction_rows j"
      and c1: "col1 = col @ [next_col col, next_col col + 1]"
      and d1: "data1 = data @ [Finite 1, Finite 1]"
      by simp_all
    have nc: "next_col col1 = next_col col + 2"
      unfolding c1 by (rule next_col_snoc2 [OF ne])
    have len: "length (filter supported (j # js)) = Suc (length (filter supported js))"
      using True by simp
    have "col' = col @ map (\<lambda>i. next_col col + int i) [0..<2 * length (filter supported (j # js))]"
      unfolding len reaction_cols_Suc using IH by (simp add: c1 next_col_snoc2 [OF ne] del: upt_Suc)
    moreover have "data' = data @ replicate (2 * length (filter supported (j # js))) (Finite 1)"
      unfolding len using IH by (simp add: d1)
    moreover have "row' = row @ concat (map reaction_rows (filter supported (j # js)))"
      using IH True by (simp add: r1)
    ultimately show ?thesis
      using IH st(1) ne by simp
  qed
qed

lemma set_beam_cols:
  "set (concat (map (\<lambda>k. replicate 4 (int k)) [0..<n])) = int ` {0..<n}"
  by (auto simp: image_iff)

lemma Max_int_upt: "Max (int ` {0..<Suc n}) = int n"
  by (rule Max_eqI) auto

lemma next_col_beams:
  "0 < n \<Longrightarrow> next_col (concat (map (\<lambda>k. replicate 4 (int k)) [0..<n])) = int n"
proof -
  assume "0 < n"
  then obtain m where n: "n = Suc m" by (cases n) auto
  have ne: "concat (map (\<lambda>k. replicate 4 (int k)) [0..<n]) \<noteq> []"
    unfolding n by simp
  show ?thesis
    unfolding next_col_def py_max_Max [OF ne] set_beam_cols
    unfolding n Max_int_upt by simp
qed

lemma assemble_Inr:
  assumes "assemble werr t = Inr (row, col, data, sol)"
  shows "list_all (beam_ok werr (joints t)) (beams t)"
    and "row = concat (map (beam_rows (joints t)) (beams t))
             @ concat (map reaction_rows (filter supported (joints t)))"
    and "col = concat (map (\<lambda>k. replicate 4 (int k)) [0..<length (beams t)])
             @ map (\<lambda>i. int (length (beams t)) + int i) [0..<2 * length (filter supported (joints t))]"
    and "data = concat (map (beam_data (joints t)) (beams t))
             @ replicate (2 * length (filter supported (joints t))) (Finite 1)"
    and "length sol = 2 * length (joints t)"
    and "filter supported (joints t) \<noteq> [] \<Longrightarrow> beams t \<noteq> []"
proof -
  from assms obtain row0 col0 data0 where
    bl: "beam_loop werr (joints t) (beams t) 0 ([], [], []) = Inr (row0, col0, data0)"
    and jl: "joint_loop (joints t) (row0, col0, data0, replicate (length (joints t) * 2) 0)
              = Inr (row, col, data, sol)"
    by (auto simp: assemble_def ebind_eq_Inr)
  from bl have ok: "list_all (beam_ok werr (joints t)) (beams t)"
    and r0: "row0 = concat (map (beam_rows (joints t)) (beams t))"
    and c0: "col0 = concat (map (\<lambda>k. replicate 4 (int k)) [0..<length (beams t)])"
    and d0: "data0 = concat (map (beam_data (joints t)) (beams t))"
    unfolding beam_loop_Inr by simp_all
  note J = joint_loop_Inr [OF jl]
  show "list_all (beam_ok werr (joints t)) (beams t)" by (rule ok)
  show "row = concat (map (beam_rows (joints t)) (beams t))
             @ concat (map reaction_rows (filter supported (joints t)))"
    using J r0 by simp
  show "data = concat (map (beam_data (joints t)) (beams t))
             @ replicate (2 * length (filter supported (joints t))) (Finite 1)"
    using J d0 by simp
  show "length sol = 2 * length (joints t)"
    using J by simp
  show ne: "beams t \<noteq> []" if "filter supported (joints t) \<noteq> []"
    using J that c0 by auto
  show "col = concat (map (\<lambda>k. replicate 4 (int k)) [0..<length (beams t)])
             @ map (\<lambda>i. int (length (beams t)) + int i) [0..<2 * length (filter supported (joints t))]"
  proof (cases "filter supported (joints t) = []")
    case True
    with J c0 show ?thesis by simp
  next
    case False
    then have "0 < length (beams t)" using ne by simp
    then have "next_col col0 = int (length (beams t))"
      unfolding c0 by (rule next_col_beams)
    with J c0 show ?thesis by simp
  qed
qed

section \<open>Evaluating the example trusses\<close>

lemmas example_defs = single_beam_def bracket_def double_beam_def loose_joint_def no_beams_def
  mk_joint_def mk_beam_def

lemmas run_defs = assemble_def beam_step_def joint_step_def ebind_def np_pred_def int64_min_def
  int64_max_def np_index_def np_div_def py_int_def py_setitem_def py_max_def Let_def

lemma single_beam_assemble:
  "assemble werr single_beam =
     Inr ([0, 1, 2, 3, 0, 1], [0, 0, 0, 0, 1, 2],
          [Finite (- 1), Finite 0, Finite 1, Finite 0, Finite 1, Finite 1], [0, 0, 10, 0])"
  by (simp add: example_defs run_defs numeral_eq_Suc)

lemma single_beam_shape: "system_shape werr single_beam = Inr (4, 3)"
  by (simp add: system_shape_def single_beam_assemble py_max_def)

lemma bracket_assemble:
  "assemble werr bracket =
     Inr ([0, 1, 4, 5, 2, 3, 4, 5, 0, 1, 2, 3], [0, 0, 0, 0, 1, 1, 1, 1, 2, 3, 4, 5],
          [Finite 0, Finite (- 1), Finite 0, Finite 1, Finite (- 1), Finite 0, Finite 1, Finite 0,
           Finite 1, Finite 1, Finite 1, Finite 1],
          [0, 0, 0, 0, 0, 100])"
  by (simp add: example_defs run_defs numeral_eq_Suc)

lemma loose_joint_assemble:
  "assemble werr loose_joint =
     Inr ([0, 1, 2, 3, 0, 1, 2, 3, 0, 1], [0, 0, 0, 0, 1, 1, 1, 1, 2, 3],
          [Finite (- 1), Finite 0, Finite 1, Finite 0, Finite (- 1), Finite 0, Finite 1, Finite 0,
           Finite 1, Finite 1],
          [0, 0, 10, 0, 0, 0])"
  by (simp add: example_defs run_defs numeral_eq_Suc)

section \<open>The shape of the assembled system\<close>

lemma set_beam_rows:
  "set (beam_rows js bm) =
     (\<Union>k \<in> {py_int (jid (endpoint js (bj1 bm))), py_int (jid (endpoint js (bj2 bm)))}.
        {k * 2 - 2, k * 2 - 1})"
  by (auto simp: beam_rows_def Let_def)

lemma set_rows:
  "set (concat (map (beam_rows js) bms) @ concat (map reaction_rows (filter supported js))) =
     (\<Union>k \<in> set (joint_numbers js bms). {k * 2 - 2, k * 2 - 1})"
  by (auto simp: joint_numbers_def set_beam_rows reaction_rows_def)

lemma Max_rows:
  fixes S :: "int set"
  assumes "finite S" and "S \<noteq> {}"
  shows "Max (\<Union>k \<in> S. {k * 2 - 2, k * 2 - 1}) = 2 * Max S - 1"
proof (rule Max_eqI)
  show "finite (\<Union>k \<in> S. {k * 2 - 2, k * 2 - 1})"
    using assms(1) by simp
  show "y \<le> 2 * Max S - 1" if "y \<in> (\<Union>k \<in> S. {k * 2 - 2, k * 2 - 1})" for y
  proof -
    from that obtain k where k: "k \<in> S" and y: "y = k * 2 - 2 \<or> y = k * 2 - 1"
      by auto
    from k assms(1) have "k \<le> Max S" by simp
    with y show ?thesis by auto
  qed
  have "Max S \<in> S" using assms by simp
  then show "2 * Max S - 1 \<in> (\<Union>k \<in> S. {k * 2 - 2, k * 2 - 1})"
    by (auto intro!: bexI [of _ "Max S"])
qed

lemma set_cols:
  "set (concat (map (\<lambda>k. replicate 4 (int k)) [0..<b]) @ map (\<lambda>i. int b + int i) [0..<n]) =
     int ` {0..<b + n}"
proof -
  have "(\<lambda>i. int b + int i) ` {0..<n} = int ` {b..<b + n}"
  proof (rule set_eqI)
    fix x
    show "x \<in> (\<lambda>i. int b + int i) ` {0..<n} \<longleftrightarrow> x \<in> int ` {b..<b + n}"
    proof
      assume "x \<in> (\<lambda>i. int b + int i) ` {0..<n}"
      then obtain i where "i < n" "x = int (b + i)" by auto
      then show "x \<in> int ` {b..<b + n}" by (auto intro!: image_eqI [of _ _ "b + i"])
    next
      assume "x \<in> int ` {b..<b + n}"
      then obtain k where k: "b \<le> k" "k < b + n" "x = int k" by auto
      then have "x = int b + int (k - b)" "k - b < n" by auto
      then show "x \<in> (\<lambda>i. int b + int i) ` {0..<n}" by (auto intro!: image_eqI [of _ _ "k - b"])
    qed
  qed
  moreover have "int ` {0..<b} \<union> int ` {b..<b + n} = int ` {0..<b + n}"
    unfolding image_Un [symmetric] by (rule arg_cong [of _ _ "image int"]) auto
  moreover have "set (concat (map (\<lambda>k. replicate 4 (int k)) [0..<b]) @ map (\<lambda>i. int b + int i) [0..<n])
      = int ` {0..<b} \<union> (\<lambda>i. int b + int i) ` {0..<n}"
    unfolding set_append set_beam_cols by simp
  ultimately show ?thesis
    by simp
qed

lemma shape_of_assembly:
  assumes a: "assemble werr t = Inr (row, col, data, sol)" and ne: "beams t \<noteq> []"
  shows "py_max row = Inr (2 * Max (set (joint_numbers (joints t) (beams t))) - 1)"
    and "py_max col =
           Inr (int (length (beams t)) + 2 * int (length (filter supported (joints t))) - 1)"
proof -
  note A = assemble_Inr [OF a]
  obtain bm bms where bs: "beams t = bm # bms" using ne by (cases "beams t") auto
  have jn: "set (joint_numbers (joints t) (beams t)) \<noteq> {}"
    by (simp add: joint_numbers_def bs)
  have rne: "row \<noteq> []"
    unfolding A(2) by (simp add: bs beam_rows_def Let_def)
  have "Max (set row) = 2 * Max (set (joint_numbers (joints t) (beams t))) - 1"
    unfolding A(2) set_rows by (rule Max_rows) (use jn in simp_all)
  with rne show "py_max row = Inr (2 * Max (set (joint_numbers (joints t) (beams t))) - 1)"
    by (simp add: py_max_Max)
  have cne: "col \<noteq> []"
    unfolding A(3) by (simp add: bs replicate_4 upt_conv_Cons del: upt_Suc)
  obtain m where m: "length (beams t) + 2 * length (filter supported (joints t)) = Suc m"
    using ne by (cases "length (beams t) + 2 * length (filter supported (joints t))") auto
  have "Max (set col) = int m"
    unfolding A(3) set_cols m by (rule Max_int_upt)
  also have "\<dots> = int (length (beams t)) + 2 * int (length (filter supported (joints t))) - 1"
    using m by linarith
  finally show "py_max col =
           Inr (int (length (beams t)) + 2 * int (length (filter supported (joints t))) - 1)"
    using cne by (simp add: py_max_Max)
qed

lemma system_shape_eq:
  assumes a: "assemble werr t = Inr asm" and ne: "beams t \<noteq> []"
  shows "system_shape werr t =
           Inr (2 * Max (set (joint_numbers (joints t) (beams t))),
                int (length (beams t)) + 2 * int (length (filter supported (joints t))))"
proof -
  obtain row col data sol where asm: "asm = (row, col, data, sol)" by (cases asm) auto
  note S = shape_of_assembly [OF a [unfolded asm] ne]
  show ?thesis
    by (simp add: system_shape_def a asm S)
qed

section \<open>The layout of the assembled lists\<close>

lemma nth_concat_uniform:
  assumes "\<forall>xs \<in> set xss. length xs = n" and "b < length xss" and "i < n"
  shows "concat xss ! (n * b + i) = xss ! b ! i"
  using assms
proof (induction xss arbitrary: b)
  case Nil
  then show ?case by simp
next
  case (Cons xs xss)
  then have len: "length xs = n" by simp
  show ?case
  proof (cases b)
    case 0
    with len Cons.prems show ?thesis by (simp add: nth_append)
  next
    case (Suc b')
    with Cons.prems have "concat xss ! (n * b' + i) = xss ! b' ! i"
      by (intro Cons.IH) auto
    moreover have "n * b + i = length xs + (n * b' + i)"
      using Suc len by simp
    ultimately show ?thesis
      using Suc by (simp only: concat.simps nth_append_length_plus nth_Cons_Suc)
  qed
qed

lemma length_concat_uniform:
  "\<forall>xs \<in> set xss. length xs = n \<Longrightarrow> length (concat xss) = n * length xss"
  by (induction xss) simp_all

lemma length_beam_rows [simp]: "length (beam_rows js bm) = 4"
  by (simp add: beam_rows_def Let_def)

lemma length_beam_data [simp]: "length (beam_data js bm) = 4"
  by (simp add: beam_data_def Let_def)

lemma length_reaction_rows [simp]: "length (reaction_rows j) = 2"
  by (simp add: reaction_rows_def)

lemma length_beam_part:
  "length (concat (map (beam_rows js) bms)) = 4 * length bms"
  "length (concat (map (\<lambda>k. replicate 4 (int k)) [0..<n])) = 4 * n"
  "length (concat (map (beam_data js) bms)) = 4 * length bms"
  using length_concat_uniform [of "map (beam_rows js) bms" 4]
    length_concat_uniform [of "map (\<lambda>k. replicate 4 (int k)) [0..<n]" 4]
    length_concat_uniform [of "map (beam_data js) bms" 4]
  by simp_all

lemma nth_beam_part:
  assumes "b < length bms" and "i < 4"
  shows "concat (map (beam_rows js) bms) ! (4 * b + i) = beam_rows js (bms ! b) ! i"
    and "concat (map (\<lambda>k. replicate 4 (int k)) [0..<length bms]) ! (4 * b + i) = int b"
    and "concat (map (beam_data js) bms) ! (4 * b + i) = beam_data js (bms ! b) ! i"
  using nth_concat_uniform [of "map (beam_rows js) bms" 4 b i]
    nth_concat_uniform [of "map (\<lambda>k. replicate 4 (int k)) [0..<length bms]" 4 b i]
    nth_concat_uniform [of "map (beam_data js) bms" 4 b i] assms
  by simp_all

lemma nth_reaction_part:
  assumes "s < length sj" and "i < 2"
  shows "concat (map reaction_rows sj) ! (2 * s + i) = reaction_rows (sj ! s) ! i"
    and "map (\<lambda>i. c + int i) [0..<2 * length sj] ! (2 * s + i) = c + int (2 * s + i)"
    and "replicate (2 * length sj) v ! (2 * s + i) = v"
  using nth_concat_uniform [of "map reaction_rows sj" 2 s i] assms
  by simp_all


lemma assembled_lengths:
  assumes a: "assemble werr t = Inr (row, col, data, sol)"
  shows "length row = 4 * length (beams t) + 2 * length (filter supported (joints t))"
    and "length col = 4 * length (beams t) + 2 * length (filter supported (joints t))"
    and "length data = 4 * length (beams t) + 2 * length (filter supported (joints t))"
  unfolding assemble_Inr(2-4) [OF a]
  using length_concat_uniform [of "map reaction_rows (filter supported (joints t))" 2]
  by (simp_all add: length_beam_part)

lemma beam_entries:
  assumes a: "assemble werr t = Inr (row, col, data, sol)"
    and b: "b < length (beams t)" and i: "i < 4"
  shows "row ! (4 * b + i) = beam_rows (joints t) (beams t ! b) ! i"
    and "col ! (4 * b + i) = int b"
    and "data ! (4 * b + i) = beam_data (joints t) (beams t ! b) ! i"
proof -
  have lt: "4 * b + i < 4 * length (beams t)"
    using b i by simp
  show "row ! (4 * b + i) = beam_rows (joints t) (beams t ! b) ! i"
    unfolding assemble_Inr(2) [OF a] using lt
    by (simp add: nth_append length_beam_part nth_beam_part [OF b i])
  show "col ! (4 * b + i) = int b"
    unfolding assemble_Inr(3) [OF a] using lt
    by (simp add: nth_append length_beam_part nth_beam_part [OF b i] del: upt_Suc)
  show "data ! (4 * b + i) = beam_data (joints t) (beams t ! b) ! i"
    unfolding assemble_Inr(4) [OF a] using lt
    by (simp add: nth_append length_beam_part nth_beam_part [OF b i])
qed

lemma reaction_entries:
  assumes a: "assemble werr t = Inr (row, col, data, sol)"
    and s: "s < length (filter supported (joints t))" and i: "i < 2"
  shows "row ! (4 * length (beams t) + (2 * s + i)) =
           reaction_rows (filter supported (joints t) ! s) ! i"
    and "col ! (4 * length (beams t) + (2 * s + i)) = int (length (beams t)) + int (2 * s + i)"
    and "data ! (4 * length (beams t) + (2 * s + i)) = Finite 1"
proof -
  show "row ! (4 * length (beams t) + (2 * s + i)) =
           reaction_rows (filter supported (joints t) ! s) ! i"
    unfolding assemble_Inr(2) [OF a]
    using nth_append_length_plus [of "concat (map (beam_rows (joints t)) (beams t))" _ "2 * s + i"]
    by (simp add: length_beam_part nth_reaction_part(1) [OF s i])
  show "col ! (4 * length (beams t) + (2 * s + i)) = int (length (beams t)) + int (2 * s + i)"
    unfolding assemble_Inr(3) [OF a]
    using nth_append_length_plus
      [of "concat (map (\<lambda>k. replicate 4 (int k)) [0..<length (beams t)])" _ "2 * s + i"]
    by (simp add: length_beam_part nth_reaction_part(2) [OF s i] del: upt_Suc)
  show "data ! (4 * length (beams t) + (2 * s + i)) = Finite 1"
    unfolding assemble_Inr(4) [OF a]
    using nth_append_length_plus [of "concat (map (beam_data (joints t)) (beams t))" _ "2 * s + i"]
    by (simp add: length_beam_part nth_reaction_part(3) [OF s i])
qed

lemma column_owner:
  assumes a: "assemble werr t = Inr (row, col, data, sol)" and k: "k < length col"
  shows "col ! k = (if k < 4 * length (beams t) then int (k div 4)
                    else int (length (beams t)) + int (k - 4 * length (beams t)))"
proof (cases "k < 4 * length (beams t)")
  case True
  then have b: "k div 4 < length (beams t)" and i: "k mod 4 < 4"
    by simp_all
  from beam_entries(2) [OF a b i] True show ?thesis
    by simp
next
  case False
  define m where "m = k - 4 * length (beams t)"
  have km: "k = 4 * length (beams t) + (2 * (m div 2) + m mod 2)"
    using False by (simp add: m_def)
  have "m < 2 * length (filter supported (joints t))"
    using k False unfolding assembled_lengths(2) [OF a] m_def by simp
  then have s: "m div 2 < length (filter supported (joints t))" and i: "m mod 2 < 2"
    by simp_all
  from reaction_entries(2) [OF a s i] False show ?thesis
    by (simp add: km [symmetric] m_def)
qed


text \<open>
  Claim C4. For a beam at position \<open>b\<close> whose joints \<open>j1\<close> and \<open>j2\<close> have distinct
  coordinates, with \<open>dx = x(j1) - x(j2)\<close> and \<open>dy = y(j1) - y(j2)\<close>, the assembler
  stores in column \<open>b\<close> exactly four coefficients: \<open>dx / sqrt (dx\<^sup>2 + dy\<^sup>2)\<close> in the
  x-row of \<open>j1\<close> and \<open>dy / sqrt (dx\<^sup>2 + dy\<^sup>2)\<close> in its y-row, and the opposite values
  in the x-row and the y-row of \<open>j2\<close>. The x-row and y-row of joint number \<open>k\<close> are
  the rows \<open>2k - 2\<close> and \<open>2k - 1\<close>. No other entry of the lists is in column \<open>b\<close>.
\<close>

theorem beam_coefficients:
  assumes "assemble werr t = Inr (row, col, data, sol)"
    and "b < length (beams t)"
    and "\<not> zero_length (joints t) (beams t ! b)"
  shows "let j1 = endpoint (joints t) (bj1 (beams t ! b));
             j2 = endpoint (joints t) (bj2 (beams t ! b));
             dx = jx j1 - jx j2;
             dy = jy j1 - jy j2;
             n = sqrt (dx\<^sup>2 + dy\<^sup>2)
         in (row ! (4 * b), col ! (4 * b), data ! (4 * b)) =
              (py_int (jid j1) * 2 - 2, int b, Finite (dx / n)) \<and>
            (row ! (4 * b + 1), col ! (4 * b + 1), data ! (4 * b + 1)) =
              (py_int (jid j1) * 2 - 1, int b, Finite (dy / n)) \<and>
            (row ! (4 * b + 2), col ! (4 * b + 2), data ! (4 * b + 2)) =
              (py_int (jid j2) * 2 - 2, int b, Finite (- dx / n)) \<and>
            (row ! (4 * b + 3), col ! (4 * b + 3), data ! (4 * b + 3)) =
              (py_int (jid j2) * 2 - 1, int b, Finite (- dy / n)) \<and>
            (\<forall>k < length col. col ! k = int b \<longrightarrow> 4 * b \<le> k \<and> k < 4 * b + 4)"
proof -
  note a = assms(1) and b = assms(2) and nz = assms(3)
  have e0: "row ! (4 * b) = beam_rows (joints t) (beams t ! b) ! 0"
      "col ! (4 * b) = int b" "data ! (4 * b) = beam_data (joints t) (beams t ! b) ! 0"
    using beam_entries [OF a b, of 0] by simp_all
  have e1: "row ! (4 * b + 1) = beam_rows (joints t) (beams t ! b) ! 1"
      "col ! (4 * b + 1) = int b" "data ! (4 * b + 1) = beam_data (joints t) (beams t ! b) ! 1"
    using beam_entries [OF a b, of 1] by simp_all
  have e2: "row ! (4 * b + 2) = beam_rows (joints t) (beams t ! b) ! 2"
      "col ! (4 * b + 2) = int b" "data ! (4 * b + 2) = beam_data (joints t) (beams t ! b) ! 2"
    using beam_entries [OF a b, of 2] by simp_all
  have e3: "row ! (4 * b + 3) = beam_rows (joints t) (beams t ! b) ! 3"
      "col ! (4 * b + 3) = int b" "data ! (4 * b + 3) = beam_data (joints t) (beams t ! b) ! 3"
    using beam_entries [OF a b, of 3] by simp_all
  have own: "4 * b \<le> k \<and> k < 4 * b + 4" if k: "k < length col" and c: "col ! k = int b" for k
  proof (cases "k < 4 * length (beams t)")
    case True
    with column_owner [OF a k] c have "k div 4 = b" by simp
    then show ?thesis by auto
  next
    case False
    with column_owner [OF a k] c b show ?thesis by simp
  qed
  show ?thesis
    unfolding Let_def e0 e1 e2 e3
    using nz own
    by (simp add: beam_rows_def beam_data_def Let_def numeral_3_eq_3 minus_divide_left
        del: divide_minus_left)
qed

theorem beam_coefficients_witness:
  "assemble False bracket =
     Inr ([0, 1, 4, 5, 2, 3, 4, 5, 0, 1, 2, 3], [0, 0, 0, 0, 1, 1, 1, 1, 2, 3, 4, 5],
          [Finite 0, Finite (- 1), Finite 0, Finite 1, Finite (- 1), Finite 0, Finite 1, Finite 0,
           Finite 1, Finite 1, Finite 1, Finite 1],
          [0, 0, 0, 0, 0, 100]) \<and>
   1 < length (beams bracket) \<and> \<not> zero_length (joints bracket) (beams bracket ! 1) \<and>
   endpoint (joints bracket) (bj1 (beams bracket ! 1)) = mk_joint 2 0 1 0 0 1 \<and>
   endpoint (joints bracket) (bj2 (beams bracket ! 1)) = mk_joint 3 1 1 0 (- 100) 0 \<and>
   [Finite (- 1), Finite 0, Finite 1, Finite 0] =
     [Finite ((0 - 1) / sqrt ((0 - 1)\<^sup>2 + (1 - 1)\<^sup>2)), Finite ((1 - 1) / sqrt ((0 - 1)\<^sup>2 + (1 - 1)\<^sup>2)),
      Finite (- (0 - 1) / sqrt ((0 - 1)\<^sup>2 + (1 - 1)\<^sup>2)), Finite (- (1 - 1) / sqrt ((0 - 1)\<^sup>2 + (1 - 1)\<^sup>2))]"
proof -
  have b: "1 < length (beams bracket)"
    by (simp add: example_defs)
  have nz: "\<not> zero_length (joints bracket) (beams bracket ! 1)"
    by (simp add: zero_length_def endpoint_def row_index_def int64_min_def example_defs)
  have ends: "endpoint (joints bracket) (bj1 (beams bracket ! 1)) = mk_joint 2 0 1 0 0 1"
    "endpoint (joints bracket) (bj2 (beams bracket ! 1)) = mk_joint 3 1 1 0 (- 100) 0"
    by (simp_all add: endpoint_def row_index_def int64_min_def example_defs)
  from beam_coefficients [OF bracket_assemble b nz] b nz ends show ?thesis
    by (simp add: bracket_assemble Let_def mk_joint_def)
qed

text \<open>
  Claim C10. In the assembled lists the four entries of the beam at position \<open>b\<close> are
  in column \<open>b\<close>, so the beam unknowns take the columns \<open>0..B - 1\<close> in the order of the
  beams table. The \<open>s\<close>-th supported joint (in the order of the joints table, from 0)
  adds two entries after those of the beams: coefficient 1 in its x-row and column
  \<open>B + 2s\<close>, and coefficient 1 in its y-row and column \<open>B + 2s + 1\<close>; each of these
  columns holds that one entry only. A supported joint can only be processed when
  there is a beam, so the statement needs no hypothesis on \<open>B\<close>.
\<close>

theorem column_layout:
  assumes "assemble werr t = Inr (row, col, data, sol)"
  shows "(\<forall>b < length (beams t). \<forall>i < 4. col ! (4 * b + i) = int b) \<and>
         (\<forall>s < length (filter supported (joints t)).
            (row ! (4 * length (beams t) + 2 * s),
             col ! (4 * length (beams t) + 2 * s),
             data ! (4 * length (beams t) + 2 * s)) =
              (py_int (jid (filter supported (joints t) ! s)) * 2 - 2,
               int (length (beams t)) + 2 * int s, Finite 1) \<and>
            (row ! (4 * length (beams t) + 2 * s + 1),
             col ! (4 * length (beams t) + 2 * s + 1),
             data ! (4 * length (beams t) + 2 * s + 1)) =
              (py_int (jid (filter supported (joints t) ! s)) * 2 - 1,
               int (length (beams t)) + 2 * int s + 1, Finite 1)) \<and>
         length col = 4 * length (beams t) + 2 * length (filter supported (joints t)) \<and>
         (\<forall>k < length col. \<forall>m. col ! k = int (length (beams t)) + int m \<longrightarrow>
            k = 4 * length (beams t) + m)"
proof (intro conjI allI impI)
  note a = assms
  show "col ! (4 * b + i) = int b" if "b < length (beams t)" "i < 4" for b i
    using beam_entries(2) [OF a that] .
  show "length col = 4 * length (beams t) + 2 * length (filter supported (joints t))"
    by (rule assembled_lengths(2) [OF a])
  show "(row ! (4 * length (beams t) + 2 * s),
         col ! (4 * length (beams t) + 2 * s),
         data ! (4 * length (beams t) + 2 * s)) =
          (py_int (jid (filter supported (joints t) ! s)) * 2 - 2,
           int (length (beams t)) + 2 * int s, Finite 1)"
    if "s < length (filter supported (joints t))" for s
    using reaction_entries [OF a that, of 0] by (simp add: reaction_rows_def)
  show "(row ! (4 * length (beams t) + 2 * s + 1),
         col ! (4 * length (beams t) + 2 * s + 1),
         data ! (4 * length (beams t) + 2 * s + 1)) =
          (py_int (jid (filter supported (joints t) ! s)) * 2 - 1,
           int (length (beams t)) + 2 * int s + 1, Finite 1)"
    if "s < length (filter supported (joints t))" for s
    using reaction_entries [OF a that, of 1] by (simp add: reaction_rows_def add.assoc)
  show "k = 4 * length (beams t) + m"
    if k: "k < length col" and c: "col ! k = int (length (beams t)) + int m" for k m
  proof (cases "k < 4 * length (beams t)")
    case True
    then have "k div 4 < length (beams t)" by simp
    with column_owner [OF a k] c True show ?thesis by simp
  next
    case False
    with column_owner [OF a k] c show ?thesis by simp
  qed
qed

theorem column_layout_witness:
  "assemble False bracket =
     Inr ([0, 1, 4, 5, 2, 3, 4, 5, 0, 1, 2, 3], [0, 0, 0, 0, 1, 1, 1, 1, 2, 3, 4, 5],
          [Finite 0, Finite (- 1), Finite 0, Finite 1, Finite (- 1), Finite 0, Finite 1, Finite 0,
           Finite 1, Finite 1, Finite 1, Finite 1],
          [0, 0, 0, 0, 0, 100]) \<and>
   length (beams bracket) = 2 \<and>
   filter supported (joints bracket) = [mk_joint 1 1 0 0 0 1, mk_joint 2 0 1 0 0 1] \<and>
   [0, 0, 0, 0, 1, 1, 1, 1, 2, 3, 4, 5] ! (4 * 1 + 3) = int 1 \<and>
   ([0, 1, 4, 5, 2, 3, 4, 5, 0, 1, 2, 3] ! (4 * 2 + 2 * 1),
    [0, 0, 0, 0, 1, 1, 1, 1, 2, 3, 4, 5] ! (4 * 2 + 2 * 1),
    [Finite 0, Finite (- 1), Finite 0, Finite 1, Finite (- 1), Finite 0, Finite 1, Finite 0,
     Finite 1, Finite 1, Finite 1, Finite 1] ! (4 * 2 + 2 * 1)) =
     (py_int 2 * 2 - 2, int 2 + 2 * int 1, Finite 1)"
proof -
  have B: "length (beams bracket) = 2"
    by (simp add: example_defs)
  have S: "filter supported (joints bracket) = [mk_joint 1 1 0 0 0 1, mk_joint 2 0 1 0 0 1]"
    by (simp add: example_defs supported_def)
  note L = column_layout [OF bracket_assemble [of False], unfolded B S]
  from L have "[0, 0, 0, 0, 1, 1, 1, 1, 2, 3, 4, 5] ! (4 * 1 + 3) = int 1"
    by simp
  moreover from L have
    "([0, 1, 4, 5, 2, 3, 4, 5, 0, 1, 2, 3] ! (4 * 2 + 2 * 1),
      [0, 0, 0, 0, 1, 1, 1, 1, 2, 3, 4, 5] ! (4 * 2 + 2 * 1),
      [Finite 0, Finite (- 1), Finite 0, Finite 1, Finite (- 1), Finite 0, Finite 1, Finite 0,
       Finite 1, Finite 1, Finite 1, Finite 1] ! (4 * 2 + 2 * 1)) =
     (py_int 2 * 2 - 2, int 2 + 2 * int 1, Finite 1)"
    by (simp add: py_int_def)
  ultimately show ?thesis
    using B S by (simp only: bracket_assemble simp_thms)
qed

section \<open>The determinacy check\<close>

lemma shape_mismatch:
  assumes "system_shape werr t = Inr (R, C)" and "R \<noteq> C"
  shows "equilibrium_system werr t = Inl RuntimeError"
proof -
  from assms(1) obtain row col data sol mr mc where
    a: "assemble werr t = Inr (row, col, data, sol)"
    and mr: "py_max row = Inr mr" and mc: "py_max col = Inr mc"
    and shape: "R = mr + 1" "C = mc + 1"
    by (auto simp: system_shape_def ebind_eq_Inr)
  from shape assms(2) have "mr > mc \<or> mr < mc" by auto
  with a mr mc show ?thesis
    by (simp add: equilibrium_system_def)
qed

lemma one_beam_assemble:
  assumes "x1 \<noteq> x2"
  shows "assemble werr \<lparr>joints = [mk_joint 1 x1 y 0 0 1, mk_joint 2 x2 y (- 10) 0 0],
                        beams = [mk_beam i 1 2]\<rparr> =
     Inr ([0, 1, 2, 3, 0, 1], [0, 0, 0, 0, 1, 2],
          [Finite ((x1 - x2) / \<bar>x1 - x2\<bar>), Finite 0, Finite ((x2 - x1) / \<bar>x2 - x1\<bar>), Finite 0,
           Finite 1, Finite 1], [0, 0, 10, 0])"
  using assms by (simp add: mk_joint_def mk_beam_def run_defs numeral_eq_Suc)

text \<open>
  Claim C7, as amended. For a single horizontal beam between two joints, joint 1
  supported and joint 2 loaded with \<open>(-10, 0)\<close>, the system has 4 rows (two per joint)
  and 3 columns (one beam, two reactions), so \<open>calculate_force\<close> raises the RuntimeError
  of the determinacy check and returns no beam force, whatever the solver.
\<close>

theorem single_beam_scenario:
  assumes "x1 \<noteq> x2"
  shows "system_shape werr \<lparr>joints = [mk_joint 1 x1 y 0 0 1, mk_joint 2 x2 y (- 10) 0 0],
                             beams = [mk_beam i 1 2]\<rparr> = Inr (4, 3) \<and>
         calculate_force solve
           \<lparr>self = \<lparr>joints = [mk_joint 1 x1 y 0 0 1, mk_joint 2 x2 y (- 10) 0 0],
                     beams = [mk_beam i 1 2]\<rparr>, warn_error = werr\<rparr> =
           (Inl RuntimeError,
            \<lparr>self = \<lparr>joints = [mk_joint 1 x1 y 0 0 1, mk_joint 2 x2 y (- 10) 0 0],
                      beams = [mk_beam i 1 2]\<rparr>, warn_error = werr\<rparr>)"
proof -
  have shape: "system_shape werr \<lparr>joints = [mk_joint 1 x1 y 0 0 1, mk_joint 2 x2 y (- 10) 0 0],
                             beams = [mk_beam i 1 2]\<rparr> = Inr (4, 3)"
    by (simp add: system_shape_def one_beam_assemble [OF assms] py_max_def)
  from shape_mismatch [OF shape] shape show ?thesis
    by (simp add: calculate_force_def)
qed

theorem single_beam_scenario_witness:
  "(0::real) \<noteq> 1 \<and>
   system_shape False single_beam = Inr (4, 3) \<and>
   calculate_force exact_spsolve \<lparr>self = single_beam, warn_error = False\<rparr> =
     (Inl RuntimeError, \<lparr>self = single_beam, warn_error = False\<rparr>)"
  using single_beam_scenario [of 0 1 False 0 1 exact_spsolve]
  by (simp add: single_beam_def)

text \<open>
  The claim as stated fails: on that truss the call raises and returns no force.
\<close>

theorem single_beam_scenario_counterexample:
  "calculate_force exact_spsolve \<lparr>self = single_beam, warn_error = False\<rparr> =
     (Inl RuntimeError, \<lparr>self = single_beam, warn_error = False\<rparr>)"
  using shape_mismatch [OF single_beam_shape [of False]]
  by (simp add: calculate_force_def)

section \<open>A joint that carries nothing\<close>

lemma upt_4: "[0..<4] = [0, 1, 2, 3]"
  by (simp add: upt_rec)

lemma loose_joint_system:
  "equilibrium_system werr loose_joint =
     Inr ([[Finite (- 1), Finite (- 1), Finite 1, Finite 0],
           [Finite 0, Finite 0, Finite 0, Finite 1],
           [Finite 1, Finite 1, Finite 0, Finite 0],
           [Finite 0, Finite 0, Finite 0, Finite 0]],
          [0, 0, 10, 0, 0, 0])"
  by (simp add: equilibrium_system_def loose_joint_assemble py_max_def csr_matrix_def upt_4
      entry_def np_sum_def)

lemma loose_joint_shape: "system_shape werr loose_joint = Inr (4, 4)"
  by (simp add: system_shape_def loose_joint_assemble py_max_def)

lemma loose_joint_counts:
  "length (joints loose_joint) = 3" "length (beams loose_joint) = 2"
  "length (filter supported (joints loose_joint)) = 1"
  by (simp_all add: example_defs supported_def)

text \<open>
  Claim C1, at an input where the code departs from it. The truss \<open>loose_joint\<close> has
  3 joints, 2 beams and 1 supported joint: 6 equations against 4 unknowns, so the
  claim asks for the not-statically-determinate RuntimeError. The code compares
  \<open>max(row) + 1 = 4\<close> with \<open>max(col) + 1 = 4\<close>, since no entry of the lists is in a row
  of the third joint; the check of line 110 passes, and no solver makes the call end
  in the RuntimeError. The solver is handed a 4 by 4 matrix with a right-hand side of 6
  entries; its failure is caught and the empty list is returned.
\<close>

theorem determinacy_check_missed:
  "2 * int (length (joints loose_joint)) = 6 \<and>
   int (length (beams loose_joint)) + 2 * int (length (filter supported (joints loose_joint))) = 4 \<and>
   system_shape werr loose_joint = Inr (4, 4) \<and>
   fst (calculate_force solve \<lparr>self = loose_joint, warn_error = werr\<rparr>) \<noteq> Inl RuntimeError \<and>
   calculate_force exact_spsolve \<lparr>self = loose_joint, warn_error = False\<rparr> =
     (Inr [], \<lparr>self = loose_joint, warn_error = True\<rparr>)"
proof -
  have "fst (calculate_force solve \<lparr>self = loose_joint, warn_error = werr\<rparr>) \<noteq> Inl RuntimeError"
    by (simp add: calculate_force_def loose_joint_system split: option.splits)
  moreover have "calculate_force exact_spsolve \<lparr>self = loose_joint, warn_error = False\<rparr> =
     (Inr [], \<lparr>self = loose_joint, warn_error = True\<rparr>)"
    by (simp add: calculate_force_def loose_joint_system exact_spsolve_def)
  ultimately show ?thesis
    by (simp add: loose_joint_shape loose_joint_counts)
qed

text \<open>
  Claim C5, at the same input. The claim gives the system 2 \<times> 3 = 6 rows. The code
  builds the right-hand side with 6 entries (line 88) but sizes the matrix from the
  lists (line 114): \<open>max(row) + 1 = 4\<close> rows, the third joint having no beam and no
  support. The column count is the claimed one, 2 + 2 \<times> 1 = 4.
\<close>

theorem matrix_rows_missed:
  "equilibrium_system werr loose_joint =
     Inr ([[Finite (- 1), Finite (- 1), Finite 1, Finite 0],
           [Finite 0, Finite 0, Finite 0, Finite 1],
           [Finite 1, Finite 1, Finite 0, Finite 0],
           [Finite 0, Finite 0, Finite 0, Finite 0]],
          [0, 0, 10, 0, 0, 0]) \<and>
   length [[Finite (- 1), Finite (- 1), Finite 1, Finite 0],
           [Finite 0, Finite 0, Finite 0, Finite 1],
           [Finite 1, Finite 1, Finite 0, Finite 0],
           [Finite 0, Finite 0, Finite 0, Finite 0]] = 4 \<and>
   length [0, 0, 10, 0, 0, 0 :: real] = 2 * length (joints loose_joint) \<and>
   2 * length (joints loose_joint) = 6"
  by (simp add: loose_joint_system loose_joint_counts)

section \<open>A truss without beams\<close>

lemma joint_loop_Inl:
  "joint_loop js acc = Inl e \<Longrightarrow> e = IndexError \<or> e = ValueError"
proof (induction js arbitrary: acc)
  case Nil
  then show ?case by simp
next
  case (Cons j js)
  obtain row col data sol where acc: "acc = (row, col, data, sol)" by (cases acc) auto
  show ?case
  proof (cases "joint_step j acc")
    case (Inl e')
    with Cons.prems have "e = e'" by simp
    with Inl joint_step_Inl [of j row col data sol e'] show ?thesis
      by (auto simp: acc)
  next
    case (Inr acc')
    with Cons.prems have "joint_loop js acc' = Inl e" by simp
    then show ?thesis by (rule Cons.IH)
  qed
qed

lemma py_setitem_in_range:
  assumes "1 \<le> k" and "k \<le> int n" and "length sol = 2 * n"
  shows "\<exists>sol'. py_setitem sol (k * 2 - 2) v = Inr sol'"
    and "\<exists>sol'. py_setitem sol (k * 2 - 1) v = Inr sol'"
  using assms by (auto simp: py_setitem_def Let_def)

lemma joint_step_in_range:
  assumes k: "1 \<le> py_int (jid j)" "py_int (jid j) \<le> int n" and len: "length sol = 2 * n"
    and e: "joint_step j (row, col, data, sol) = Inl e"
  shows "e = ValueError"
proof -
  obtain sol1 where s1:
    "(if jfx j \<noteq> 0 then py_setitem sol (py_int (jid j) * 2 - 2) (- jfx j) else Inr sol) = Inr sol1"
    using py_setitem_in_range(1) [OF k len] by (cases "jfx j = 0") auto
  then have len1: "length sol1 = 2 * n"
    using len by (auto split: if_splits dest: py_setitem_length)
  obtain sol2 where s2:
    "(if jfy j \<noteq> 0 then py_setitem sol1 (py_int (jid j) * 2 - 1) (- jfy j) else Inr sol1) = Inr sol2"
    using py_setitem_in_range(2) [OF k len1] by (cases "jfy j = 0") auto
  from e show ?thesis
    unfolding joint_step_def Let_def prod.case s1 s2 ebind_Inr
    by (auto simp: ebind_eq_Inl py_max_eq_Inl split: if_splits)
qed

lemma joint_loop_in_range:
  assumes "list_all (\<lambda>j. 1 \<le> py_int (jid j) \<and> py_int (jid j) \<le> int n) js"
    and "length sol = 2 * n"
    and "joint_loop js (row, col, data, sol) = Inl e"
  shows "e = ValueError"
  using assms
proof (induction js arbitrary: row col data sol)
  case Nil
  then show ?case by simp
next
  case (Cons j js)
  from Cons.prems(1) have k: "1 \<le> py_int (jid j)" "py_int (jid j) \<le> int n"
    and rest: "list_all (\<lambda>j. 1 \<le> py_int (jid j) \<and> py_int (jid j) \<le> int n) js"
    by simp_all
  show ?case
  proof (cases "joint_step j (row, col, data, sol)")
    case (Inl e')
    with Cons.prems(3) have "e = e'" by simp
    with joint_step_in_range [OF k Cons.prems(2)] Inl show ?thesis by simp
  next
    case (Inr acc')
    obtain row' col' data' sol' where acc': "acc' = (row', col', data', sol')"
      by (cases acc') auto
    from joint_step_Inr(1) [OF Inr [unfolded acc']] Cons.prems(2)
    have len: "length sol' = 2 * n" by simp
    from Inr Cons.prems(3) have "joint_loop js (row', col', data', sol') = Inl e"
      by (simp add: acc')
    from Cons.IH [OF rest len this] show ?thesis .
  qed
qed

lemma equilibrium_no_beams:
  assumes "beams t = []"
  shows "equilibrium_system werr t = Inl ValueError \<or> equilibrium_system werr t = Inl IndexError"
    and "list_all (\<lambda>j. 1 \<le> py_int (jid j) \<and> py_int (jid j) \<le> int (length (joints t))) (joints t)
          \<Longrightarrow> equilibrium_system werr t = Inl ValueError"
proof -
  have asm: "assemble werr t =
      joint_loop (joints t) ([], [], [], replicate (length (joints t) * 2) 0)"
    by (simp add: assemble_def assms)
  have ok: "equilibrium_system werr t = Inl ValueError"
    if "assemble werr t = Inr r" for r
  proof -
    obtain row col data sol where r: "r = (row, col, data, sol)" by (cases r) auto
    from assemble_Inr(6) [OF that [unfolded r]] assms
    have "filter supported (joints t) = []" by blast
    with assemble_Inr(2) [OF that [unfolded r]] assms
    have "row = []" by simp
    with that r show ?thesis
      by (simp add: equilibrium_system_def)
  qed
  have bad: "equilibrium_system werr t = Inl e" if "assemble werr t = Inl e" for e
    using that by (simp add: equilibrium_system_def)
  show "equilibrium_system werr t = Inl ValueError \<or> equilibrium_system werr t = Inl IndexError"
  proof (cases "assemble werr t")
    case (Inl e)
    with joint_loop_Inl [of "joints t" _ e] asm bad [OF Inl] show ?thesis by auto
  next
    case (Inr r)
    from ok [OF this] show ?thesis by simp
  qed
  show "equilibrium_system werr t = Inl ValueError"
    if "list_all (\<lambda>j. 1 \<le> py_int (jid j) \<and> py_int (jid j) \<le> int (length (joints t))) (joints t)"
  proof (cases "assemble werr t")
    case (Inl e)
    with joint_loop_in_range [OF that, of "replicate (length (joints t) * 2) 0" "[]" "[]" "[]" e] asm
    have "e = ValueError" by simp
    with bad [OF Inl] show ?thesis by simp
  next
    case (Inr r)
    from ok [OF this] show ?thesis .
  qed
qed

text \<open>
  Claim C9, as amended. On a truss without beams \<open>calculate_force\<close> always raises and
  returns no forces. The exception is the ValueError of \<open>max\<close> on an empty list when
  every joint number lies in 1..N: at the first supported joint (\<open>max(col)\<close>, line 103),
  or at \<open>max(row)\<close> of line 110 when no joint is supported. With a joint number outside
  that range it is that ValueError or the IndexError of a load assignment (lines 94
  and 98), whichever comes first.
\<close>

theorem no_beams_raises:
  assumes "beams t = []"
  shows "(calculate_force solve \<lparr>self = t, warn_error = werr\<rparr> =
            (Inl ValueError, \<lparr>self = t, warn_error = werr\<rparr>) \<or>
          calculate_force solve \<lparr>self = t, warn_error = werr\<rparr> =
            (Inl IndexError, \<lparr>self = t, warn_error = werr\<rparr>)) \<and>
         (list_all (\<lambda>j. 1 \<le> py_int (jid j) \<and> py_int (jid j) \<le> int (length (joints t))) (joints t)
          \<longrightarrow> calculate_force solve \<lparr>self = t, warn_error = werr\<rparr> =
                (Inl ValueError, \<lparr>self = t, warn_error = werr\<rparr>))"
  using equilibrium_no_beams [OF assms, of werr]
  by (auto simp: calculate_force_def)

theorem no_beams_raises_witness:
  "beams no_beams = [] \<and>
   list_all (\<lambda>j. 1 \<le> py_int (jid j) \<and> py_int (jid j) \<le> int (length (joints no_beams)))
     (joints no_beams) \<and>
   calculate_force exact_spsolve \<lparr>self = no_beams, warn_error = False\<rparr> =
     (Inl ValueError, \<lparr>self = no_beams, warn_error = False\<rparr>)"
proof -
  have b: "beams no_beams = []"
    by (simp add: example_defs)
  have r: "list_all (\<lambda>j. 1 \<le> py_int (jid j) \<and> py_int (jid j) \<le> int (length (joints no_beams)))
     (joints no_beams)"
    by (simp add: example_defs py_int_def)
  from no_beams_raises [OF b, of exact_spsolve False] r b show ?thesis
    by simp
qed

text \<open>
  The claim as stated fails on a table of one loaded joint with the number 5: the
  assignment of line 94 is out of range, and the exception is not the one of \<open>max\<close>.
\<close>

theorem no_beams_raises_counterexample:
  "beams stray_number = [] \<and>
   calculate_force exact_spsolve \<lparr>self = stray_number, warn_error = False\<rparr> =
     (Inl IndexError, \<lparr>self = stray_number, warn_error = False\<rparr>)"
  by (simp add: calculate_force_def equilibrium_system_def stray_number_def mk_joint_def
      run_defs)

section \<open>The reference solver\<close>

text \<open>
  A vector the reference solver returns solves the system it was given: the solver
  meets \<open>solver_sound\<close>.
\<close>

lemma dot_Cons [simp]: "dot (a # as) (x # xs) = a * x + dot as xs"
  by (simp add: dot_def)

lemma dot_Nil [simp]: "dot [] xs = 0"
  by (simp add: dot_def)

lemma dot_eliminated:
  "length as = length cs \<Longrightarrow>
     dot (map2 (\<lambda>a c. a - m * c) as cs) xs = dot as xs - m * dot cs xs"
proof (induction as cs arbitrary: xs rule: list_induct2)
  case Nil
  show ?case by simp
next
  case (Cons a as c cs)
  show ?case
  proof (cases xs)
    case Nil
    then show ?thesis by (simp add: dot_def)
  next
    case (Cons x xs')
    with Cons.IH [of xs'] show ?thesis
      by (simp add: algebra_simps)
  qed
qed

lemma split_pivot_Some:
  assumes "split_pivot eqs = Some (p, rest)"
  shows "hd (fst p) \<noteq> 0 \<and> set eqs = insert p (set rest) \<and> length eqs = Suc (length rest)"
  using assms
proof (induction eqs arbitrary: rest)
  case Nil
  then show ?case by simp
next
  case (Cons e es)
  show ?case
  proof (cases "hd (fst e) \<noteq> 0")
    case True
    with Cons.prems show ?thesis by auto
  next
    case False
    with Cons.prems obtain rest' where sp: "split_pivot es = Some (p, rest')"
      and r: "rest = e # rest'"
      by (auto split: option.splits)
    from Cons.IH [OF sp] r show ?thesis by auto
  qed
qed

lemma solve_eqs_sound:
  assumes "solve_eqs n eqs = Some xs" and "\<forall>e \<in> set eqs. length (fst e) = n"
  shows "length xs = n \<and> (\<forall>e \<in> set eqs. dot (fst e) xs = snd e)"
  using assms
proof (induction n arbitrary: eqs xs)
  case 0
  then show ?case by (simp split: if_splits)
next
  case (Suc n)
  from Suc.prems(1) obtain p rest ys where
    sp: "split_pivot eqs = Some (p, rest)"
    and rec: "solve_eqs n (map (eliminate p) rest) = Some ys"
    and xs: "xs = (snd p - dot (tl (fst p)) ys) / hd (fst p) # ys"
    by (auto split: option.splits)
  note P = split_pivot_Some [OF sp]
  from P Suc.prems(2) have lp: "length (fst p) = Suc n"
    and lrest: "\<forall>e \<in> set rest. length (fst e) = Suc n"
    by auto
  obtain a as where p: "fst p = a # as" and las: "length as = n"
    using lp by (cases "fst p") auto
  from P p have a: "a \<noteq> 0" by simp
  have "\<forall>e \<in> set (map (eliminate p) rest). length (fst e) = n"
    using lrest las by (auto simp: eliminate_def Let_def p)
  from Suc.IH [OF rec this] have lys: "length ys = n"
    and sol: "\<forall>e \<in> set rest. dot (fst (eliminate p e)) ys = snd (eliminate p e)"
    by auto
  define x where "x = (snd p - dot as ys) / a"
  have xs': "xs = x # ys"
    by (simp add: xs p x_def)
  have pivot: "dot (fst p) xs = snd p"
    using a by (simp add: xs' p x_def)
  have other: "dot (fst e) xs = snd e" if e: "e \<in> set rest" for e
  proof -
    from lrest e obtain c cs where ec: "fst e = c # cs" and lcs: "length cs = n"
      by (cases "fst e") auto
    from sol e have "dot (fst (eliminate p e)) ys = snd (eliminate p e)"
      by blast
    then have "dot (map2 (\<lambda>u v. u - c / a * v) cs as) ys = snd e - c / a * snd p"
      by (simp add: eliminate_def Let_def ec p)
    then have "dot cs ys - c / a * dot as ys = snd e - c / a * snd p"
      using dot_eliminated [of cs as "c / a" ys] lcs las by simp
    then have "dot cs ys = snd e - c / a * (snd p - dot as ys)"
      by (simp add: algebra_simps)
    then show ?thesis
      using a by (simp add: xs' ec x_def)
  qed
  from pivot other P lys show ?case
    by (auto simp: xs')
qed


lemma the_real_Finite: "map (map (the_real \<circ> Finite)) A = A"
  by (simp add: comp_def)

lemma all_Finite: "list_all (list_all (\<lambda>x. x \<noteq> NonFinite)) (map (map Finite) A)"
  by (auto simp: list_all_iff)

lemma exact_spsolve_sound: "solver_sound exact_spsolve"
  unfolding solver_sound_def
proof (intro allI impI)
  fix A b f
  assume s: "exact_spsolve (map (map Finite) A) b = Some f"
  from s have lb: "length b = length A"
    by (auto simp: exact_spsolve_def Let_def split: if_splits)
  from s have rows: "\<forall>r \<in> set A. length r = length A"
    by (auto simp: exact_spsolve_def Let_def list_all_iff split: if_splits)
  from s obtain x where x: "solve_eqs (length A) (zip A b) = Some x" and f: "f = map Finite x"
    by (auto simp: exact_spsolve_def Let_def the_real_Finite all_Finite split: if_splits)
  have "\<forall>e \<in> set (zip A b). length (fst e) = length A"
    using rows by (auto dest: set_zip_leftD)
  from solve_eqs_sound [OF x this] have lx: "length x = length A"
    and sol: "\<forall>e \<in> set (zip A b). dot (fst e) x = snd e"
    by auto
  have "mat_vec A x = b"
  proof (rule nth_equalityI)
    show "length (mat_vec A x) = length b"
      by (simp add: mat_vec_def lb)
    fix i assume "i < length (mat_vec A x)"
    then have i: "i < length A" by (simp add: mat_vec_def)
    with lb have "(A ! i, b ! i) \<in> set (zip A b)"
      by (auto simp: set_zip)
    with sol have "dot (A ! i) x = b ! i" by auto
    with i show "mat_vec A x ! i = b ! i"
      by (simp add: mat_vec_def)
  qed
  with f lx lb show "\<exists>x. f = map Finite x \<and> length x = length b \<and> mat_vec A x = b"
    by auto
qed

section \<open>A failing solver\<close>

lemma double_beam_assemble:
  "assemble werr double_beam =
     Inr ([0, 1, 2, 3, 0, 1, 2, 3, 0, 1], [0, 0, 0, 0, 1, 1, 1, 1, 2, 3],
          [Finite (- 1), Finite 0, Finite 1, Finite 0, Finite (- 1), Finite 0, Finite 1, Finite 0,
           Finite 1, Finite 1],
          [0, 0, 10, 0])"
  by (simp add: example_defs run_defs numeral_eq_Suc)

lemma double_beam_system:
  "equilibrium_system werr double_beam =
     Inr ([[Finite (- 1), Finite (- 1), Finite 1, Finite 0],
           [Finite 0, Finite 0, Finite 0, Finite 1],
           [Finite 1, Finite 1, Finite 0, Finite 0],
           [Finite 0, Finite 0, Finite 0, Finite 0]],
          [0, 0, 10, 0])"
  by (simp add: equilibrium_system_def double_beam_assemble py_max_def csr_matrix_def upt_4
      entry_def np_sum_def)

lemma double_beam_singular:
  "exact_spsolve [[Finite (- 1), Finite (- 1), Finite 1, Finite 0],
           [Finite 0, Finite 0, Finite 0, Finite 1],
           [Finite 1, Finite 1, Finite 0, Finite 0],
           [Finite 0, Finite 0, Finite 0, Finite 0]] [0, 0, 10, 0] = None"
  by (simp add: exact_spsolve_def numeral_eq_Suc eliminate_def dot_def)


lemma csr_matrix_dims:
  assumes "csr_matrix data row col R C = Inr A"
  shows "length A = nat R" and "\<forall>r \<in> set A. length r = nat C"
  using assms by (auto simp: csr_matrix_def split: if_splits)

lemma equilibrium_system_Inr:
  assumes "equilibrium_system werr t = Inr (A, b)"
  shows "\<exists>row col data m. assemble werr t = Inr (row, col, data, b) \<and>
           py_max row = Inr m \<and> py_max col = Inr m \<and>
           csr_matrix data row col (m + 1) (m + 1) = Inr A"
proof -
  from assms obtain row col data sol mr mc where
    a: "assemble werr t = Inr (row, col, data, sol)"
    and mr: "py_max row = Inr mr" and mc: "py_max col = Inr mc"
    and rest: "(if mr > mc \<or> mr < mc then Inl RuntimeError
         else ebind (csr_matrix data row col (mr + 1) (mc + 1)) (\<lambda>matrix. Inr (matrix, sol)))
         = Inr (A, b)"
    unfolding equilibrium_system_def by (auto simp: ebind_eq_Inr)
  from rest have eq: "mr = mc" and "csr_matrix data row col (mr + 1) (mc + 1) = Inr A" and "sol = b"
    by (auto simp: ebind_eq_Inr split: if_splits)
  with a mr mc show ?thesis by auto
qed

lemma equilibrium_system_square:
  assumes "equilibrium_system werr t = Inr (A, b)"
  shows "\<exists>n. system_shape werr t = Inr (n, n) \<and> length A = nat n \<and>
           (\<forall>r \<in> set A. length r = nat n)"
proof -
  from equilibrium_system_Inr [OF assms] obtain row col data m where
    a: "assemble werr t = Inr (row, col, data, b)"
    and m: "py_max row = Inr m" "py_max col = Inr m"
    and c: "csr_matrix data row col (m + 1) (m + 1) = Inr A"
    by blast
  have "system_shape werr t = Inr (m + 1, m + 1)"
    by (simp add: system_shape_def a m)
  with csr_matrix_dims [OF c] show ?thesis by blast
qed

lemma upt_6: "[0..<6] = [0, 1, 2, 3, 4, 5]"
  by (simp add: upt_rec)

lemma bracket_system:
  "equilibrium_system werr bracket =
     Inr (map (map Finite)
           [[0, 0, 1, 0, 0, 0],
            [- 1, 0, 0, 1, 0, 0],
            [0, - 1, 0, 0, 1, 0],
            [0, 0, 0, 0, 0, 1],
            [0, 1, 0, 0, 0, 0],
            [1, 0, 0, 0, 0, 0]],
          [0, 0, 0, 0, 0, 100])"
  by (simp add: equilibrium_system_def bracket_assemble py_max_def csr_matrix_def upt_6
      entry_def np_sum_def)

lemma bracket_solution:
  "exact_spsolve (map (map Finite)
           [[0, 0, 1, 0, 0, 0],
            [- 1, 0, 0, 1, 0, 0],
            [0, - 1, 0, 0, 1, 0],
            [0, 0, 0, 0, 0, 1],
            [0, 1, 0, 0, 0, 0],
            [1, 0, 0, 0, 0, 0]]) [0, 0, 0, 0, 0, 100] =
     Some (map Finite [100, 0, 0, 100, 0, 0])"
  by (simp add: exact_spsolve_def numeral_eq_Suc eliminate_def)


text \<open>
  Claim C3, as amended. When the system is handed to the solver (it has passed the
  check of line 110, so it is square as the code counts rows and columns) and the solve
  fails, that is, the solver raises an exception or a warning under the \<open>error\<close> filter
  (the singular-matrix warning among them), \<open>calculate_force\<close> raises nothing: the failure
  is caught and the empty list is returned, an outcome that differs from the
  determinacy mismatch, which is a raised RuntimeError. When the solver returns a
  vector, singular matrix or not, its first (number of beams) entries are returned.
  Either way the warnings filter is left at \<open>error\<close>.
\<close>

theorem solver_failure_caught:
  assumes "equilibrium_system werr t = Inr (A, b)"
  shows "(\<exists>n. system_shape werr t = Inr (n, n)) \<and>
         (solve A b = None \<longrightarrow>
            calculate_force solve \<lparr>self = t, warn_error = werr\<rparr> =
              (Inr [], \<lparr>self = t, warn_error = True\<rparr>)) \<and>
         (\<forall>f. solve A b = Some f \<longrightarrow>
            calculate_force solve \<lparr>self = t, warn_error = werr\<rparr> =
              (Inr (take (length (beams t)) f), \<lparr>self = t, warn_error = True\<rparr>)) \<and>
         fst (calculate_force solve \<lparr>self = t, warn_error = werr\<rparr>) \<noteq> Inl RuntimeError"
  using equilibrium_system_square [OF assms] assms
  by (auto simp: calculate_force_def split: option.splits)

theorem solver_failure_caught_witness:
  "equilibrium_system False double_beam =
     Inr ([[Finite (- 1), Finite (- 1), Finite 1, Finite 0],
           [Finite 0, Finite 0, Finite 0, Finite 1],
           [Finite 1, Finite 1, Finite 0, Finite 0],
           [Finite 0, Finite 0, Finite 0, Finite 0]],
          [0, 0, 10, 0]) \<and>
   exact_spsolve [[Finite (- 1), Finite (- 1), Finite 1, Finite 0],
           [Finite 0, Finite 0, Finite 0, Finite 1],
           [Finite 1, Finite 1, Finite 0, Finite 0],
           [Finite 0, Finite 0, Finite 0, Finite 0]] [0, 0, 10, 0] = None \<and>
   calculate_force exact_spsolve \<lparr>self = double_beam, warn_error = False\<rparr> =
     (Inr [], \<lparr>self = double_beam, warn_error = True\<rparr>) \<and>
   equilibrium_system False bracket =
     Inr (map (map Finite)
           [[0, 0, 1, 0, 0, 0],
            [- 1, 0, 0, 1, 0, 0],
            [0, - 1, 0, 0, 1, 0],
            [0, 0, 0, 0, 0, 1],
            [0, 1, 0, 0, 0, 0],
            [1, 0, 0, 0, 0, 0]],
          [0, 0, 0, 0, 0, 100]) \<and>
   exact_spsolve (map (map Finite)
           [[0, 0, 1, 0, 0, 0],
            [- 1, 0, 0, 1, 0, 0],
            [0, - 1, 0, 0, 1, 0],
            [0, 0, 0, 0, 0, 1],
            [0, 1, 0, 0, 0, 0],
            [1, 0, 0, 0, 0, 0]]) [0, 0, 0, 0, 0, 100] =
     Some (map Finite [100, 0, 0, 100, 0, 0]) \<and>
   calculate_force exact_spsolve \<lparr>self = bracket, warn_error = False\<rparr> =
     (Inr [Finite 100, Finite 0], \<lparr>self = bracket, warn_error = True\<rparr>)"
proof -
  have B: "length (beams bracket) = 2"
    by (simp add: example_defs)
  from solver_failure_caught [where solve = exact_spsolve and werr = False,
      OF double_beam_system]
  have r1: "calculate_force exact_spsolve \<lparr>self = double_beam, warn_error = False\<rparr> =
     (Inr [], \<lparr>self = double_beam, warn_error = True\<rparr>)"
    by (simp add: double_beam_singular)
  from solver_failure_caught [where solve = exact_spsolve and werr = False,
      OF bracket_system]
  have r2: "calculate_force exact_spsolve \<lparr>self = bracket, warn_error = False\<rparr> =
     (Inr [Finite 100, Finite 0], \<lparr>self = bracket, warn_error = True\<rparr>)"
    unfolding bracket_solution B by simp
  from r1 r2 show ?thesis
    by (simp only: double_beam_system double_beam_singular bracket_system bracket_solution
        simp_thms)
qed

text \<open>
  The claim as stated fails on the truss with two beams between the same joints: the
  system is square (4 by 4) and singular, and the call returns the empty list.
\<close>

theorem solver_failure_caught_counterexample:
  "system_shape False double_beam = Inr (4, 4) \<and>
   fst (calculate_force exact_spsolve \<lparr>self = double_beam, warn_error = False\<rparr>) = Inr []"
  by (simp add: system_shape_def double_beam_assemble py_max_def calculate_force_def
      double_beam_system double_beam_singular)


section \<open>What a call leaves behind\<close>

lemma beam_loop_filter_free:
  assumes "list_all (\<lambda>bm. \<not> zero_length js bm \<and> \<not> overflows bm) bms"
  shows "beam_loop w1 js bms b acc = beam_loop w2 js bms b acc"
  using assms
proof (induction bms arbitrary: b acc)
  case Nil
  show ?case by simp
next
  case (Cons bm bms)
  obtain row col data where acc: "acc = (row, col, data)" by (cases acc) auto
  from Cons.prems have nz: "\<not> zero_length js bm" and no: "\<not> overflows bm"
    and rest: "list_all (\<lambda>bm. \<not> zero_length js bm \<and> \<not> overflows bm) bms"
    by simp_all
  have step: "beam_step w1 js bm b acc = beam_step w2 js bm b acc"
    unfolding acc beam_step_eq using nz no by (simp add: overflows_def)
  have "beam_loop w1 js bms (Suc b) = beam_loop w2 js bms (Suc b)"
    using Cons.IH [OF rest] by (intro ext)
  with step show ?case by simp
qed

lemma equilibrium_system_filter_free:
  assumes "list_all (\<lambda>bm. \<not> zero_length (joints t) bm \<and> \<not> overflows bm) (beams t)"
  shows "equilibrium_system w1 t = equilibrium_system w2 t"
proof -
  have "assemble w1 t = assemble w2 t"
    unfolding assemble_def beam_loop_filter_free [OF assms, of w1 _ _ w2] ..
  then show ?thesis
    by (simp add: equilibrium_system_def)
qed

lemma beam_loop_all_select:
  assumes "list_all (\<lambda>bm. selects js (bj1 bm) \<and> selects js (bj2 bm)) bms"
    and "beam_loop werr js bms b acc = Inl e"
  shows "e = RuntimeWarning \<and> werr"
  using assms
proof (induction bms arbitrary: b acc)
  case Nil
  then show ?case by simp
next
  case (Cons bm bms)
  obtain row col data where acc: "acc = (row, col, data)" by (cases acc) auto
  from Cons.prems(1) have sel: "selects js (bj1 bm) \<and> selects js (bj2 bm)"
    and rest: "list_all (\<lambda>bm. selects js (bj1 bm) \<and> selects js (bj2 bm)) bms"
    by simp_all
  show ?case
  proof (cases "beam_step werr js bm b acc")
    case (Inl e')
    with Cons.prems(2) have "e = e'" by simp
    with Inl sel show ?thesis
      by (auto simp: acc beam_step_eq split: if_splits)
  next
    case (Inr acc')
    with Cons.prems(2) have "beam_loop werr js bms (Suc b) acc' = Inl e" by simp
    from Cons.IH [OF rest this] show ?thesis .
  qed
qed

lemma beam_loop_fails:
  assumes "\<not> list_all (beam_ok werr js) bms"
  shows "\<exists>e. beam_loop werr js bms b acc = Inl e"
proof (cases "beam_loop werr js bms b acc")
  case (Inl e)
  then show ?thesis by blast
next
  case (Inr r)
  obtain row col data where acc: "acc = (row, col, data)" by (cases acc) auto
  from Inr [unfolded acc beam_loop_Inr] assms show ?thesis by simp
qed

lemma calculate_force_beam_error:
  assumes "beam_loop werr (joints t) (beams t) 0 ([], [], []) = Inl e"
  shows "calculate_force solve \<lparr>self = t, warn_error = werr\<rparr> =
           (Inl e, \<lparr>self = t, warn_error = werr\<rparr>)"
  using assms by (simp add: calculate_force_def equilibrium_system_def assemble_def)

lemma division_or_overflow_warns:
  assumes sel: "list_all (\<lambda>bm. selects (joints t) (bj1 bm) \<and> selects (joints t) (bj2 bm)) (beams t)"
    and z: "list_ex (\<lambda>bm. zero_length (joints t) bm \<or> overflows bm) (beams t)"
  shows "calculate_force solve \<lparr>self = t, warn_error = True\<rparr> =
           (Inl RuntimeWarning, \<lparr>self = t, warn_error = True\<rparr>)"
proof -
  from z have "\<not> list_all (beam_ok True (joints t)) (beams t)"
    by (auto simp: list_ex_iff list_all_iff beam_ok_def)
  from beam_loop_fails [OF this] obtain e where
    e: "beam_loop True (joints t) (beams t) 0 ([], [], []) = Inl e"
    by blast
  from beam_loop_all_select [OF sel e] have "e = RuntimeWarning" by simp
  with calculate_force_beam_error [OF e] show ?thesis by simp
qed

lemma equilibrium_system_selects:
  assumes "equilibrium_system werr t = Inr (A, b)"
  shows "list_all (\<lambda>bm. selects (joints t) (bj1 bm) \<and> selects (joints t) (bj2 bm)) (beams t)"
proof -
  from equilibrium_system_Inr [OF assms] obtain row col data where
    "assemble werr t = Inr (row, col, data, b)" by blast
  from assemble_Inr(1) [OF this] show ?thesis
    by (auto simp: list_all_iff beam_ok_def)
qed

lemma calculate_force_state:
  "self (snd (calculate_force solve w)) = self w"
  "warn_error (snd (calculate_force solve w)) =
     (warn_error w \<or> (\<exists>A b. equilibrium_system (warn_error w) (self w) = Inr (A, b)))"
  by (auto simp: calculate_force_def split: sum.splits option.splits)

lemma coincident_pair_system:
  "equilibrium_system False coincident_pair =
     Inr ([[NonFinite, NonFinite, Finite 1, Finite 0],
           [NonFinite, NonFinite, Finite 0, Finite 1],
           [NonFinite, NonFinite, Finite 0, Finite 0],
           [NonFinite, NonFinite, Finite 0, Finite 0]],
          [0, 0, 10, 0])"
proof -
  have "assemble False coincident_pair =
     Inr ([0, 1, 2, 3, 0, 1, 2, 3, 0, 1], [0, 0, 0, 0, 1, 1, 1, 1, 2, 3],
          [NonFinite, NonFinite, NonFinite, NonFinite, NonFinite, NonFinite, NonFinite, NonFinite,
           Finite 1, Finite 1],
          [0, 0, 10, 0])"
    by (simp add: coincident_pair_def mk_joint_def mk_beam_def run_defs numeral_eq_Suc)
  then show ?thesis
    by (simp add: equilibrium_system_def py_max_def csr_matrix_def upt_4 entry_def np_sum_def)
qed

text \<open>
  Claim C8, as amended. A call of \<open>calculate_force\<close> leaves the object (\<open>joints\<close> and
  \<open>beams\<close>) as it was, whatever the outcome, and builds the lists and the right-hand
  side from empty lists. One piece of mutable state is carried from a call to the
  next: the interpreter's warnings filter, which a call sets to \<open>error\<close> exactly when
  it gets as far as the solve (line 117). A second call on the same object returns what
  the first returned when no beam has zero length or a joint number at the least
  int64. With such a beam, a first call that reached the solve under the default filter
  is followed by a call that raises RuntimeWarning.
\<close>

theorem state_between_calls:
  "self (snd (calculate_force solve w)) = self w \<and>
   warn_error (snd (calculate_force solve w)) =
     (warn_error w \<or> (\<exists>A b. equilibrium_system (warn_error w) (self w) = Inr (A, b))) \<and>
   (list_all (\<lambda>bm. \<not> zero_length (joints (self w)) bm \<and> \<not> overflows bm) (beams (self w)) \<longrightarrow>
      fst (calculate_force solve (snd (calculate_force solve w))) =
      fst (calculate_force solve w)) \<and>
   (\<not> warn_error w \<and> (\<exists>A b. equilibrium_system False (self w) = Inr (A, b)) \<and>
    list_ex (\<lambda>bm. zero_length (joints (self w)) bm \<or> overflows bm) (beams (self w)) \<longrightarrow>
      fst (calculate_force solve (snd (calculate_force solve w))) = Inl RuntimeWarning)"
proof (intro conjI impI)
  show s: "self (snd (calculate_force solve w)) = self w"
    by (rule calculate_force_state)
  show f: "warn_error (snd (calculate_force solve w)) =
     (warn_error w \<or> (\<exists>A b. equilibrium_system (warn_error w) (self w) = Inr (A, b)))"
    by (rule calculate_force_state)
  have again: "calculate_force solve (snd (calculate_force solve w)) =
      calculate_force solve \<lparr>self = self w, warn_error = warn_error (snd (calculate_force solve w))\<rparr>"
    using s by (cases "snd (calculate_force solve w)") simp
  {
    assume nz: "list_all (\<lambda>bm. \<not> zero_length (joints (self w)) bm \<and> \<not> overflows bm) (beams (self w))"
    have "equilibrium_system (warn_error (snd (calculate_force solve w))) (self w) =
          equilibrium_system (warn_error w) (self w)"
      by (rule equilibrium_system_filter_free [OF nz])
    then show "fst (calculate_force solve (snd (calculate_force solve w))) =
        fst (calculate_force solve w)"
      unfolding calculate_force_def [of solve "snd (calculate_force solve w)"] s
      by (simp add: calculate_force_def [of solve w] split: sum.splits option.splits)
  }
  {
    assume h: "\<not> warn_error w \<and> (\<exists>A b. equilibrium_system False (self w) = Inr (A, b)) \<and>
      list_ex (\<lambda>bm. zero_length (joints (self w)) bm \<or> overflows bm) (beams (self w))"
    then obtain A b where e: "equilibrium_system False (self w) = Inr (A, b)"
      by blast
    from h e f have "warn_error (snd (calculate_force solve w))"
      by auto
    with again have "calculate_force solve (snd (calculate_force solve w)) =
        calculate_force solve \<lparr>self = self w, warn_error = True\<rparr>"
      by simp
    also have "\<dots> = (Inl RuntimeWarning, \<lparr>self = self w, warn_error = True\<rparr>)"
      using h by (intro division_or_overflow_warns equilibrium_system_selects [OF e]) simp
    finally show "fst (calculate_force solve (snd (calculate_force solve w))) = Inl RuntimeWarning"
      by simp
  }
qed

text \<open>
  The claim as stated fails on the truss with two beams between two joints at the same
  place: the first call returns the empty list, and the same call again raises.
\<close>

theorem state_between_calls_counterexample:
  "fst (calculate_force exact_spsolve \<lparr>self = coincident_pair, warn_error = False\<rparr>) = Inr [] \<and>
   fst (calculate_force exact_spsolve
         (snd (calculate_force exact_spsolve \<lparr>self = coincident_pair, warn_error = False\<rparr>))) =
     Inl RuntimeWarning"
proof -
  have first: "calculate_force exact_spsolve \<lparr>self = coincident_pair, warn_error = False\<rparr> =
      (Inr [], \<lparr>self = coincident_pair, warn_error = True\<rparr>)"
    by (simp add: calculate_force_def coincident_pair_system exact_spsolve_def)
  have "calculate_force exact_spsolve \<lparr>self = coincident_pair, warn_error = True\<rparr> =
      (Inl RuntimeWarning, \<lparr>self = coincident_pair, warn_error = True\<rparr>)"
    by (simp add: calculate_force_def equilibrium_system_def coincident_pair_def mk_joint_def
        mk_beam_def run_defs)
  with first show ?thesis by simp
qed

theorem state_between_calls_witness:
  "list_all (\<lambda>bm. \<not> zero_length (joints bracket) bm \<and> \<not> overflows bm) (beams bracket) \<and>
   fst (calculate_force exact_spsolve
         (snd (calculate_force exact_spsolve \<lparr>self = bracket, warn_error = False\<rparr>))) =
     fst (calculate_force exact_spsolve \<lparr>self = bracket, warn_error = False\<rparr>) \<and>
   equilibrium_system False coincident_pair =
     Inr ([[NonFinite, NonFinite, Finite 1, Finite 0],
           [NonFinite, NonFinite, Finite 0, Finite 1],
           [NonFinite, NonFinite, Finite 0, Finite 0],
           [NonFinite, NonFinite, Finite 0, Finite 0]],
          [0, 0, 10, 0]) \<and>
   list_ex (\<lambda>bm. zero_length (joints coincident_pair) bm \<or> overflows bm) (beams coincident_pair) \<and>
   self (snd (calculate_force exact_spsolve \<lparr>self = coincident_pair, warn_error = False\<rparr>)) =
     coincident_pair \<and>
   warn_error (snd (calculate_force exact_spsolve \<lparr>self = coincident_pair, warn_error = False\<rparr>)) \<and>
   fst (calculate_force exact_spsolve
         (snd (calculate_force exact_spsolve \<lparr>self = coincident_pair, warn_error = False\<rparr>))) =
     Inl RuntimeWarning"
proof -
  have nz: "list_all (\<lambda>bm. \<not> zero_length (joints bracket) bm \<and> \<not> overflows bm) (beams bracket)"
    by (simp add: zero_length_def overflows_def endpoint_def row_index_def int64_min_def
        example_defs)
  have z: "list_ex (\<lambda>bm. zero_length (joints coincident_pair) bm \<or> overflows bm)
      (beams coincident_pair)"
    by (simp add: zero_length_def endpoint_def row_index_def int64_min_def coincident_pair_def
        mk_joint_def mk_beam_def)
  note B = state_between_calls [of exact_spsolve "\<lparr>self = bracket, warn_error = False\<rparr>"]
  note C = state_between_calls [of exact_spsolve "\<lparr>self = coincident_pair, warn_error = False\<rparr>"]
  from B nz have b: "fst (calculate_force exact_spsolve
         (snd (calculate_force exact_spsolve \<lparr>self = bracket, warn_error = False\<rparr>))) =
     fst (calculate_force exact_spsolve \<lparr>self = bracket, warn_error = False\<rparr>)"
    by simp
  from C z have c: "self (snd (calculate_force exact_spsolve \<lparr>self = coincident_pair, warn_error = False\<rparr>)) =
     coincident_pair \<and>
   warn_error (snd (calculate_force exact_spsolve \<lparr>self = coincident_pair, warn_error = False\<rparr>)) \<and>
   fst (calculate_force exact_spsolve
         (snd (calculate_force exact_spsolve \<lparr>self = coincident_pair, warn_error = False\<rparr>))) =
     Inl RuntimeWarning"
    by (simp add: coincident_pair_system)
  from nz z b c show ?thesis
    by (simp only: coincident_pair_system simp_thms)
qed

section \<open>The constructor checks no beam\<close>

lemma read_table_Inr: "read_table f = Inr rows \<longleftrightarrow> readable f \<and> rows = table_rows f"
  by (cases f rule: readable.cases) auto

lemma asarray_float_Inr:
  "asarray_float rows = Inr fs \<longleftrightarrow> numeric rows \<and> fs = map (map the_num) rows"
  by (auto simp: asarray_float_def numeric_def list_ex_iff list_all_iff)

lemma astype_int_Inr:
  "(\<exists>is. astype_int werr fs = Inr is) \<longleftrightarrow> (werr \<longrightarrow> list_all (list_all in_int64) fs)"
  by (auto simp: astype_int_def)

lemma Truss_init_succeeds:
  "(\<exists>ob. Truss_init werr jf bf = Inr ob) \<longleftrightarrow>
     readable jf \<and> readable bf \<and> numeric (table_rows jf) \<and> numeric (table_rows bf) \<and>
     (werr \<longrightarrow> fits_int64 (table_rows bf))"
proof -
  have fits: "list_all (list_all in_int64) (map (map the_num) rows) \<longleftrightarrow> fits_int64 rows" for rows
    by (simp add: fits_int64_def list_all_iff)
  have "(\<exists>ob. Truss_init werr jf bf = Inr ob) \<longleftrightarrow>
      readable jf \<and> readable bf \<and> numeric (table_rows jf) \<and> numeric (table_rows bf) \<and>
      (\<exists>is. astype_int werr (map (map the_num) (table_rows bf)) = Inr is)"
    unfolding Truss_init_def by (auto simp: ebind_eq_Inr read_table_Inr asarray_float_Inr)
  then show ?thesis
    unfolding astype_int_Inr fits .
qed

lemma missing_joint_raises:
  assumes "list_ex (\<lambda>bm. \<not> (selects (joints t) (bj1 bm) \<and> selects (joints t) (bj2 bm))) (beams t)"
  shows "calculate_force solve \<lparr>self = t, warn_error = False\<rparr> =
           (Inl IndexError, \<lparr>self = t, warn_error = False\<rparr>)"
    and "calculate_force solve \<lparr>self = t, warn_error = True\<rparr> =
           (Inl IndexError, \<lparr>self = t, warn_error = True\<rparr>) \<or>
         calculate_force solve \<lparr>self = t, warn_error = True\<rparr> =
           (Inl RuntimeWarning, \<lparr>self = t, warn_error = True\<rparr>)"
proof -
  have bad: "\<not> list_all (beam_ok werr (joints t)) (beams t)" for werr
    using assms by (auto simp: list_ex_iff list_all_iff beam_ok_def)
  from beam_loop_fails [OF bad] obtain e1 where
    e1: "beam_loop False (joints t) (beams t) 0 ([], [], []) = Inl e1"
    by blast
  from beam_loop_Inl [OF e1] have "e1 = IndexError" by simp
  with calculate_force_beam_error [OF e1]
  show "calculate_force solve \<lparr>self = t, warn_error = False\<rparr> =
           (Inl IndexError, \<lparr>self = t, warn_error = False\<rparr>)"
    by simp
  from beam_loop_fails [OF bad] obtain e2 where
    e2: "beam_loop True (joints t) (beams t) 0 ([], [], []) = Inl e2"
    by blast
  from beam_loop_Inl [OF e2] have "e2 = IndexError \<or> e2 = RuntimeWarning" by auto
  with calculate_force_beam_error [OF e2]
  show "calculate_force solve \<lparr>self = t, warn_error = True\<rparr> =
           (Inl IndexError, \<lparr>self = t, warn_error = True\<rparr>) \<or>
         calculate_force solve \<lparr>self = t, warn_error = True\<rparr> =
           (Inl RuntimeWarning, \<lparr>self = t, warn_error = True\<rparr>)"
    by auto
qed

lemma zero_length_entries:
  assumes a: "assemble werr t = Inr (row, col, data, sol)"
    and b: "b < length (beams t)" and z: "zero_length (joints t) (beams t ! b)"
    and i: "i < 4"
  shows "data ! (4 * b + i) = NonFinite"
  using beam_entries(3) [OF a b i] z i
  by (simp add: beam_data_def)

lemmas init_defs = Truss_init_def asarray_float_def rectangular_def astype_int_def in_int64_def
  int64_min_def int64_max_def py_int_def has_columns_def to_joint_def to_beam_def

lemma coincident_init:
  "Truss_init werr coincident_joints_file coincident_beams_file = Inr (Truss coincident)"
  by (simp add: init_defs coincident_joints_file_def coincident_beams_file_def coincident_def
      mk_joint_def mk_beam_def)

lemma dangling_init:
  "Truss_init werr coincident_joints_file dangling_beams_file = Inr (Truss dangling)"
  by (simp add: init_defs coincident_joints_file_def dangling_beams_file_def dangling_def
      mk_joint_def mk_beam_def)

lemma coincident_assemble:
  "assemble False coincident =
     Inr ([0, 1, 2, 3, 0, 1], [0, 0, 0, 0, 1, 2],
          [NonFinite, NonFinite, NonFinite, NonFinite, Finite 1, Finite 1], [0, 0, 10, 0])"
  by (simp add: coincident_def example_defs run_defs numeral_eq_Suc)

lemma Truss_init_object:
  assumes "readable jf" and "readable bf"
    and "numeric (table_rows jf)" and "numeric (table_rows bf)"
    and "fits_int64 (table_rows bf)"
    and "has_columns 6 (table_rows jf)" and "has_columns 3 (table_rows bf)"
  shows "Truss_init werr jf bf =
           Inr (Truss \<lparr>joints = map (to_joint \<circ> map the_num) (table_rows jf),
                       beams = map (to_beam \<circ> map (py_int \<circ> the_num)) (table_rows bf)\<rparr>)"
proof -
  have rj: "read_table jf = Inr (table_rows jf)" and rb: "read_table bf = Inr (table_rows bf)"
    using assms(1,2) by (simp_all add: read_table_Inr)
  have fj: "asarray_float (table_rows jf) = Inr (map (map the_num) (table_rows jf))"
    and fb: "asarray_float (table_rows bf) = Inr (map (map the_num) (table_rows bf))"
    using assms(3,4) by (simp_all add: asarray_float_Inr)
  have "list_all (list_all in_int64) (map (map the_num) (table_rows bf))"
    using assms(5) by (simp add: fits_int64_def list_all_iff)
  then have ib: "astype_int werr (map (map the_num) (table_rows bf)) =
      Inr (map (map py_int) (map (map the_num) (table_rows bf)))"
    by (simp add: astype_int_def)
  have cj: "has_columns 6 (map (map the_num) (table_rows jf))"
    using assms(6) by (simp add: has_columns_def list_all_iff)
  have cb: "has_columns 3 (map (map py_int) (map (map the_num) (table_rows bf)))"
    using assms(7) by (simp add: has_columns_def list_all_iff)
  show ?thesis
    using cj cb by (simp add: Truss_init_def rj rb fj fb ib)
qed

text \<open>
  Claim C2, as amended. The constructor compares no beam with the joints. It returns an
  object exactly when both files open and have a header line, both tables are
  rectangular and numeric, and, if warnings are errors, every beam entry fits int64;
  when the entries fit and the tables have the columns the methods read, the object is
  the two tables as read, whatever joints the beams name and wherever those joints lie.
  A beam without both of its joints, or of zero length, shows only in
  \<open>calculate_force\<close>. If some beam names a joint \<open>k\<close> with \<open>k - 1\<close> outside
  \<open>-N .. N-1\<close>, the call raises IndexError when warnings are not errors, and IndexError
  or RuntimeWarning when they are. If every beam names joints of the table and some
  beam has both ends at the same coordinates, the call raises RuntimeWarning when
  warnings are errors; when they are not, the four coefficients assembled for that beam
  are not finite.
\<close>

theorem construction_checks_no_beam:
  "((\<exists>ob. Truss_init werr jf bf = Inr ob) \<longleftrightarrow>
      readable jf \<and> readable bf \<and> numeric (table_rows jf) \<and> numeric (table_rows bf) \<and>
      (werr \<longrightarrow> fits_int64 (table_rows bf))) \<and>
   (readable jf \<and> readable bf \<and> numeric (table_rows jf) \<and> numeric (table_rows bf) \<and>
    fits_int64 (table_rows bf) \<and> has_columns 6 (table_rows jf) \<and> has_columns 3 (table_rows bf) \<longrightarrow>
      Truss_init werr jf bf =
        Inr (Truss \<lparr>joints = map (to_joint \<circ> map the_num) (table_rows jf),
                    beams = map (to_beam \<circ> map (py_int \<circ> the_num)) (table_rows bf)\<rparr>)) \<and>
   (list_ex (\<lambda>bm. \<not> (selects (joints t) (bj1 bm) \<and> selects (joints t) (bj2 bm))) (beams t) \<longrightarrow>
      calculate_force solve \<lparr>self = t, warn_error = False\<rparr> =
        (Inl IndexError, \<lparr>self = t, warn_error = False\<rparr>) \<and>
      (calculate_force solve \<lparr>self = t, warn_error = True\<rparr> =
         (Inl IndexError, \<lparr>self = t, warn_error = True\<rparr>) \<or>
       calculate_force solve \<lparr>self = t, warn_error = True\<rparr> =
         (Inl RuntimeWarning, \<lparr>self = t, warn_error = True\<rparr>))) \<and>
   (list_all (\<lambda>bm. selects (joints t) (bj1 bm) \<and> selects (joints t) (bj2 bm)) (beams t) \<and>
    list_ex (zero_length (joints t)) (beams t) \<longrightarrow>
      calculate_force solve \<lparr>self = t, warn_error = True\<rparr> =
        (Inl RuntimeWarning, \<lparr>self = t, warn_error = True\<rparr>) \<and>
      (\<forall>row col data sol b i.
         assemble False t = Inr (row, col, data, sol) \<and> b < length (beams t) \<and>
         zero_length (joints t) (beams t ! b) \<and> i < 4 \<longrightarrow>
         data ! (4 * b + i) = NonFinite))"
proof (intro conjI impI allI)
  show "(\<exists>ob. Truss_init werr jf bf = Inr ob) \<longleftrightarrow>
      readable jf \<and> readable bf \<and> numeric (table_rows jf) \<and> numeric (table_rows bf) \<and>
      (werr \<longrightarrow> fits_int64 (table_rows bf))"
    by (rule Truss_init_succeeds)
next
  assume "readable jf \<and> readable bf \<and> numeric (table_rows jf) \<and> numeric (table_rows bf) \<and>
    fits_int64 (table_rows bf) \<and> has_columns 6 (table_rows jf) \<and> has_columns 3 (table_rows bf)"
  then show "Truss_init werr jf bf =
        Inr (Truss \<lparr>joints = map (to_joint \<circ> map the_num) (table_rows jf),
                    beams = map (to_beam \<circ> map (py_int \<circ> the_num)) (table_rows bf)\<rparr>)"
    by (intro Truss_init_object) simp_all
next
  assume m: "list_ex (\<lambda>bm. \<not> (selects (joints t) (bj1 bm) \<and> selects (joints t) (bj2 bm))) (beams t)"
  show "calculate_force solve \<lparr>self = t, warn_error = False\<rparr> =
        (Inl IndexError, \<lparr>self = t, warn_error = False\<rparr>)"
    by (rule missing_joint_raises(1) [OF m])
  show "calculate_force solve \<lparr>self = t, warn_error = True\<rparr> =
         (Inl IndexError, \<lparr>self = t, warn_error = True\<rparr>) \<or>
       calculate_force solve \<lparr>self = t, warn_error = True\<rparr> =
         (Inl RuntimeWarning, \<lparr>self = t, warn_error = True\<rparr>)"
    by (rule missing_joint_raises(2) [OF m])
next
  assume z: "list_all (\<lambda>bm. selects (joints t) (bj1 bm) \<and> selects (joints t) (bj2 bm)) (beams t) \<and>
    list_ex (zero_length (joints t)) (beams t)"
  then have "list_ex (\<lambda>bm. zero_length (joints t) bm \<or> overflows bm) (beams t)"
    by (auto simp: list_ex_iff)
  with z show "calculate_force solve \<lparr>self = t, warn_error = True\<rparr> =
        (Inl RuntimeWarning, \<lparr>self = t, warn_error = True\<rparr>)"
    by (intro division_or_overflow_warns) simp_all
next
  fix row col data sol b i
  assume "assemble False t = Inr (row, col, data, sol) \<and> b < length (beams t) \<and>
         zero_length (joints t) (beams t ! b) \<and> (i::nat) < 4"
  then show "data ! (4 * b + i) = NonFinite"
    by (intro zero_length_entries [of False t row col data sol b i]) simp_all
qed

text \<open>
  The claim as stated fails on the table of two joints at the same place with one beam
  between them: the constructor returns the object, and so it does for the beam that
  names joint 5 of the two.
\<close>

theorem construction_checks_no_beam_counterexample:
  "Truss_init False coincident_joints_file coincident_beams_file = Inr (Truss coincident) \<and>
   zero_length (joints coincident) (beams coincident ! 0) \<and>
   Truss_init False coincident_joints_file dangling_beams_file = Inr (Truss dangling) \<and>
   \<not> selects (joints dangling) (bj2 (beams dangling ! 0))"
  by (simp add: coincident_init dangling_init)
    (simp add: coincident_def dangling_def mk_joint_def mk_beam_def zero_length_def endpoint_def
      selects_def row_index_def int64_min_def)

theorem construction_checks_no_beam_witness:
  "Truss_init True coincident_joints_file coincident_beams_file = Inr (Truss coincident) \<and>
   calculate_force exact_spsolve \<lparr>self = coincident, warn_error = True\<rparr> =
     (Inl RuntimeWarning, \<lparr>self = coincident, warn_error = True\<rparr>) \<and>
   assemble False coincident =
     Inr ([0, 1, 2, 3, 0, 1], [0, 0, 0, 0, 1, 2],
          [NonFinite, NonFinite, NonFinite, NonFinite, Finite 1, Finite 1], [0, 0, 10, 0]) \<and>
   Truss_init True coincident_joints_file dangling_beams_file = Inr (Truss dangling) \<and>
   calculate_force exact_spsolve \<lparr>self = dangling, warn_error = False\<rparr> =
     (Inl IndexError, \<lparr>self = dangling, warn_error = False\<rparr>) \<and>
   calculate_force exact_spsolve \<lparr>self = dangling, warn_error = True\<rparr> =
     (Inl IndexError, \<lparr>self = dangling, warn_error = True\<rparr>)"
proof -
  note C = construction_checks_no_beam [of True coincident_joints_file coincident_beams_file
      coincident exact_spsolve]
  note D = construction_checks_no_beam [of True coincident_joints_file dangling_beams_file
      dangling exact_spsolve]
  have tables: "readable coincident_joints_file" "readable coincident_beams_file"
    "readable dangling_beams_file"
    "numeric (table_rows coincident_joints_file)" "numeric (table_rows coincident_beams_file)"
    "numeric (table_rows dangling_beams_file)"
    "fits_int64 (table_rows coincident_beams_file)" "fits_int64 (table_rows dangling_beams_file)"
    "has_columns 6 (table_rows coincident_joints_file)"
    "has_columns 3 (table_rows coincident_beams_file)"
    "has_columns 3 (table_rows dangling_beams_file)"
    by (simp_all add: coincident_joints_file_def coincident_beams_file_def dangling_beams_file_def
        numeric_def rectangular_def fits_int64_def init_defs)
  have objects:
    "\<lparr>joints = map (to_joint \<circ> map the_num) (table_rows coincident_joints_file),
      beams = map (to_beam \<circ> map (py_int \<circ> the_num)) (table_rows coincident_beams_file)\<rparr> =
     coincident"
    "\<lparr>joints = map (to_joint \<circ> map the_num) (table_rows coincident_joints_file),
      beams = map (to_beam \<circ> map (py_int \<circ> the_num)) (table_rows dangling_beams_file)\<rparr> =
     dangling"
    by (simp_all add: coincident_joints_file_def coincident_beams_file_def dangling_beams_file_def
        coincident_def dangling_def mk_joint_def mk_beam_def init_defs)
  from C tables have c1: "Truss_init True coincident_joints_file coincident_beams_file =
      Inr (Truss coincident)"
    by (simp add: objects)
  from D tables have d1: "Truss_init True coincident_joints_file dangling_beams_file =
      Inr (Truss dangling)"
    by (simp add: objects)
  have sel: "list_all (\<lambda>bm. selects (joints coincident) (bj1 bm) \<and> selects (joints coincident) (bj2 bm))
      (beams coincident)"
    and z: "list_ex (zero_length (joints coincident)) (beams coincident)"
    by (simp_all add: coincident_def mk_joint_def mk_beam_def zero_length_def endpoint_def
        selects_def row_index_def int64_min_def)
  from C sel z have c2: "calculate_force exact_spsolve \<lparr>self = coincident, warn_error = True\<rparr> =
     (Inl RuntimeWarning, \<lparr>self = coincident, warn_error = True\<rparr>)"
    by simp
  have m: "list_ex (\<lambda>bm. \<not> (selects (joints dangling) (bj1 bm) \<and> selects (joints dangling) (bj2 bm)))
      (beams dangling)"
    by (simp add: dangling_def mk_joint_def mk_beam_def selects_def row_index_def int64_min_def)
  from D m have d2: "calculate_force exact_spsolve \<lparr>self = dangling, warn_error = False\<rparr> =
     (Inl IndexError, \<lparr>self = dangling, warn_error = False\<rparr>)"
    by simp
  have d3: "calculate_force exact_spsolve \<lparr>self = dangling, warn_error = True\<rparr> =
     (Inl IndexError, \<lparr>self = dangling, warn_error = True\<rparr>)"
    by (simp add: calculate_force_def equilibrium_system_def assemble_def dangling_def
        mk_joint_def mk_beam_def run_defs)
  from c1 c2 d1 d2 d3 coincident_assemble show ?thesis
    by (simp only: simp_thms)
qed

end
